theory Spec2Isabelle
  imports Complex_Main "HOL-Library.AList"
begin

section \<open>Numbers, points and landmark frames\<close>

text \<open>
  The two modules verified here are \<^verbatim>\<open>facePoseEstimation.js\<close> (class
  \<^verbatim>\<open>FacePoseEstimator\<close>) and \<^verbatim>\<open>facialAnalysis.js\<close> (class
  \<^verbatim>\<open>FacialAnalyzer\<close>).

  A JavaScript number is modelled as a real number: arithmetic is exact, so rounding,
  overflow, signed zeros and NaN are outside the model. Every division of the source is
  behind a guard of the source that excludes a zero divisor, and the model keeps each guard.

  A landmark is the array \<^verbatim>\<open>[x, y, z]\<close>; a frame is an array of landmarks in which an
  entry may be missing (\<^verbatim>\<open>null\<close> or \<^verbatim>\<open>undefined\<close>). Reading a JavaScript array out
  of range gives \<^verbatim>\<open>undefined\<close>, which is the missing entry again.
\<close>

type_synonym point = "real \<times> real \<times> real"

type_synonym landmarks = "point option list"

definition landmark :: "landmarks \<Rightarrow> nat \<Rightarrow> point option" where
  "landmark lms idx = (if idx < length lms then lms ! idx else None)"

definition c0 :: "point \<Rightarrow> real" where
  "c0 p = fst p"

definition c1 :: "point \<Rightarrow> real" where
  "c1 p = fst (snd p)"

definition c2 :: "point \<Rightarrow> real" where
  "c2 p = snd (snd p)"

text \<open>Both classes set \<^verbatim>\<open>maxHistoryLength\<close> to 30 in the constructor and never assign it again.\<close>

definition maxHistoryLength :: nat where
  "maxHistoryLength = 30"


section \<open>facePoseEstimation.js\<close>

subsection \<open>POSE_ANCHORS\<close>

definition POSE_ANCHORS_LEFT_EYE :: nat where
  "POSE_ANCHORS_LEFT_EYE = 33"

definition POSE_ANCHORS_RIGHT_EYE :: nat where
  "POSE_ANCHORS_RIGHT_EYE = 263"

definition POSE_ANCHORS_NOSE_TIP :: nat where
  "POSE_ANCHORS_NOSE_TIP = 1"

definition POSE_ANCHORS_CHIN :: nat where
  "POSE_ANCHORS_CHIN = 152"

definition POSE_ANCHORS_LEFT_EYE_INNER :: nat where
  "POSE_ANCHORS_LEFT_EYE_INNER = 133"

definition POSE_ANCHORS_RIGHT_EYE_INNER :: nat where
  "POSE_ANCHORS_RIGHT_EYE_INNER = 362"

subsection \<open>Vector3\<close>

datatype Vector3 = Vector3 (vx: real) (vy: real) (vz: real)

text \<open>
  \<^verbatim>\<open>Vector3.fromArray(arr)\<close> reads \<^verbatim>\<open>arr[0]\<close>; on a missing landmark that read throws a
  TypeError.
\<close>

datatype js_error = TypeError

fun Vector3_fromArray :: "point option \<Rightarrow> js_error + Vector3" where
  "Vector3_fromArray None = Inl TypeError"
| "Vector3_fromArray (Some (a, b, c)) = Inr (Vector3 a b c)"

definition Vector3_subtract :: "Vector3 \<Rightarrow> Vector3 \<Rightarrow> Vector3" where
  "Vector3_subtract u v = Vector3 (vx u - vx v) (vy u - vy v) (vz u - vz v)"

definition Vector3_add :: "Vector3 \<Rightarrow> Vector3 \<Rightarrow> Vector3" where
  "Vector3_add u v = Vector3 (vx u + vx v) (vy u + vy v) (vz u + vz v)"

definition Vector3_multiply :: "Vector3 \<Rightarrow> real \<Rightarrow> Vector3" where
  "Vector3_multiply u scalar = Vector3 (vx u * scalar) (vy u * scalar) (vz u * scalar)"

definition Vector3_length :: "Vector3 \<Rightarrow> real" where
  "Vector3_length u = sqrt (vx u * vx u + vy u * vy u + vz u * vz u)"

definition Vector3_normalize :: "Vector3 \<Rightarrow> Vector3" where
  "Vector3_normalize u =
     (let len = Vector3_length u
      in if len = 0 then Vector3 0 0 0
         else Vector3 (vx u / len) (vy u / len) (vz u / len))"

definition Vector3_dot :: "Vector3 \<Rightarrow> Vector3 \<Rightarrow> real" where
  "Vector3_dot u v = vx u * vx v + vy u * vy v + vz u * vz v"

definition Vector3_cross :: "Vector3 \<Rightarrow> Vector3 \<Rightarrow> Vector3" where
  "Vector3_cross u v =
     Vector3 (vy u * vz v - vz u * vy v)
             (vz u * vx v - vx u * vz v)
             (vx u * vy v - vy u * vx v)"

definition Vector3_toArray :: "Vector3 \<Rightarrow> point" where
  "Vector3_toArray u = (vx u, vy u, vz u)"

subsection \<open>ExponentialSmoother\<close>

text \<open>The field \<^verbatim>\<open>value\<close> of the source is \<open>smoothed\<close> here; \<open>None\<close> is \<^verbatim>\<open>null\<close>.\<close>

record ExponentialSmoother =
  alpha :: real
  smoothed :: "real option"

definition ExponentialSmoother_new :: "real \<Rightarrow> ExponentialSmoother" where
  "ExponentialSmoother_new a = \<lparr>alpha = a, smoothed = None\<rparr>"

definition ExponentialSmoother_smooth :: "ExponentialSmoother \<Rightarrow> real \<Rightarrow> real \<times> ExponentialSmoother" where
  "ExponentialSmoother_smooth s newValue =
     (case smoothed s of
        None \<Rightarrow> (newValue, s\<lparr>smoothed := Some newValue\<rparr>)
      | Some old \<Rightarrow>
          (let v = alpha s * newValue + (1 - alpha s) * old
           in (v, s\<lparr>smoothed := Some v\<rparr>)))"

definition ExponentialSmoother_reset :: "ExponentialSmoother \<Rightarrow> ExponentialSmoother" where
  "ExponentialSmoother_reset s = s\<lparr>smoothed := None\<rparr>"

subsection \<open>FacePoseEstimator\<close>

record EulerAngles =
  yaw :: real
  pitch :: real
  roll :: real

text \<open>The object \<^verbatim>\<open>{overall, yaw, pitch, roll}\<close> returned by \<^verbatim>\<open>computeStability\<close>.\<close>

record Stability =
  stab_overall :: real
  stab_yaw :: real
  stab_pitch :: real
  stab_roll :: real

text \<open>The object \<^verbatim>\<open>{right, up, forward}\<close> returned by \<^verbatim>\<open>computeFaceAxes\<close>.\<close>

record FaceAxes =
  axes_right :: Vector3
  axes_up :: Vector3
  axes_forward :: Vector3

record AnchorPoints =
  anchor_leftEye :: point
  anchor_rightEye :: point
  anchor_noseTip :: point
  anchor_chin :: point
  anchor_eyeCenter :: point

record PoseData =
  axes :: FaceAxes
  rotationMatrix :: "real list list"
  rawAngles :: EulerAngles
  smoothedAngles :: EulerAngles
  stability :: Stability
  anchorPoints :: AnchorPoints

record FacePoseEstimator =
  yawSmoother :: ExponentialSmoother
  pitchSmoother :: ExponentialSmoother
  rollSmoother :: ExponentialSmoother
  poseHistory :: "EulerAngles list"

definition FacePoseEstimator_new :: FacePoseEstimator where
  "FacePoseEstimator_new =
     \<lparr>yawSmoother = ExponentialSmoother_new (3 / 10),
      pitchSmoother = ExponentialSmoother_new (3 / 10),
      rollSmoother = ExponentialSmoother_new (3 / 10),
      poseHistory = []\<rparr>"

definition computeFaceAxes :: "Vector3 \<Rightarrow> Vector3 \<Rightarrow> Vector3 \<Rightarrow> Vector3 \<Rightarrow> FaceAxes" where
  "computeFaceAxes leftEye rightEye noseTip chin =
     (let horizontal = Vector3_normalize (Vector3_subtract rightEye leftEye);
          verticalRaw = Vector3_normalize (Vector3_subtract chin noseTip);
          forward = Vector3_normalize (Vector3_cross horizontal verticalRaw);
          vertical = Vector3_normalize (Vector3_cross forward horizontal)
      in \<lparr>axes_right = horizontal, axes_up = vertical, axes_forward = forward\<rparr>)"

definition buildRotationMatrix :: "FaceAxes \<Rightarrow> real list list" where
  "buildRotationMatrix ax =
     [[vx (axes_right ax), vx (axes_up ax), vx (axes_forward ax)],
      [vy (axes_right ax), vy (axes_up ax), vy (axes_forward ax)],
      [vz (axes_right ax), vz (axes_up ax), vz (axes_forward ax)]]"

text \<open>
  \<^verbatim>\<open>Math.atan2(y, x)\<close>: the angle of the point \<open>(x, y)\<close> in \<open>(-\<pi>, \<pi>]\<close>, and 0 at the
  origin.
\<close>

definition atan2 :: "real \<Rightarrow> real \<Rightarrow> real" where
  "atan2 y x =
     (if 0 < x then arctan (y / x)
      else if x < 0 then (if 0 \<le> y then arctan (y / x) + pi else arctan (y / x) - pi)
      else if 0 < y then pi / 2
      else if y < 0 then - (pi / 2)
      else 0)"

text \<open>
  \<^verbatim>\<open>extractEulerAngles(R)\<close> is only ever called on the 3 by 3 matrix that
  \<^verbatim>\<open>buildRotationMatrix\<close> returns, so every index below is in range.
\<close>

definition extractEulerAngles :: "real list list \<Rightarrow> EulerAngles" where
  "extractEulerAngles R =
     (let sy = sqrt (R ! 0 ! 0 * R ! 0 ! 0 + R ! 1 ! 0 * R ! 1 ! 0);
          singular = (sy < 1 / 10 ^ 6);
          y = (if \<not> singular then atan2 (R ! 1 ! 0) (R ! 0 ! 0) else atan2 (- (R ! 0 ! 1)) (R ! 1 ! 1));
          p = (if \<not> singular then atan2 (- (R ! 2 ! 0)) sy else atan2 (- (R ! 2 ! 0)) sy);
          r = (if \<not> singular then atan2 (R ! 2 ! 1) (R ! 2 ! 2) else 0)
      in \<lparr>yaw = y * 180 / pi, pitch = p * 180 / pi, roll = r * 180 / pi\<rparr>)"

definition computeVariance :: "real list \<Rightarrow> real" where
  "computeVariance vals =
     (let mean = foldl (\<lambda>a b. a + b) 0 vals / real (length vals);
          variance = foldl (\<lambda>acc val. acc + (val - mean) ^ 2) 0 vals / real (length vals)
      in sqrt variance)"

text \<open>The local function \<^verbatim>\<open>normalize\<close> of \<^verbatim>\<open>computeStability\<close>.\<close>

definition normalize_std :: "real \<Rightarrow> real" where
  "normalize_std std = min (std / 10) 1"

definition computeStability :: "FacePoseEstimator \<Rightarrow> Stability" where
  "computeStability est =
     (if length (poseHistory est) < 5
      then \<lparr>stab_overall = 1, stab_yaw = 1, stab_pitch = 1, stab_roll = 1\<rparr>
      else
        (let yawValues = map yaw (poseHistory est);
             pitchValues = map pitch (poseHistory est);
             rollValues = map roll (poseHistory est);
             yawStd = computeVariance yawValues;
             pitchStd = computeVariance pitchValues;
             rollStd = computeVariance rollValues
         in \<lparr>stab_overall = normalize_std ((yawStd + pitchStd + rollStd) / 3),
             stab_yaw = normalize_std yawStd,
             stab_pitch = normalize_std pitchStd,
             stab_roll = normalize_std rollStd\<rparr>))"

text \<open>
  The body of \<^verbatim>\<open>estimatePose\<close> after the six anchor points have been read: axes, matrix,
  angles, the three smoothers in the order yaw, pitch, roll, then the push onto the history
  with the shift of the oldest entry, and the stability of the updated history.
\<close>

definition estimatePose_anchored ::
  "FacePoseEstimator \<Rightarrow> Vector3 \<Rightarrow> Vector3 \<Rightarrow> Vector3 \<Rightarrow> Vector3 \<Rightarrow> Vector3 \<Rightarrow> Vector3
     \<Rightarrow> PoseData \<times> FacePoseEstimator" where
  "estimatePose_anchored est leftEye rightEye noseTip chin leftEyeInner rightEyeInner =
     (let ax = computeFaceAxes leftEye rightEye noseTip chin;
          R = buildRotationMatrix ax;
          raw = extractEulerAngles R;
          (sYaw, ys) = ExponentialSmoother_smooth (yawSmoother est) (yaw raw);
          (sPitch, ps) = ExponentialSmoother_smooth (pitchSmoother est) (pitch raw);
          (sRoll, rs) = ExponentialSmoother_smooth (rollSmoother est) (roll raw);
          sm = \<lparr>yaw = sYaw, pitch = sPitch, roll = sRoll\<rparr>;
          pushed = poseHistory est @ [sm];
          hist = (if length pushed > maxHistoryLength then tl pushed else pushed);
          est' = \<lparr>yawSmoother = ys, pitchSmoother = ps, rollSmoother = rs, poseHistory = hist\<rparr>;
          stab = computeStability est';
          eyeCenter = Vector3_multiply (Vector3_add leftEyeInner rightEyeInner) (1 / 2)
      in (\<lparr>axes = ax, rotationMatrix = R, rawAngles = raw, smoothedAngles = sm,
           stability = stab,
           anchorPoints =
             \<lparr>anchor_leftEye = Vector3_toArray leftEye,
              anchor_rightEye = Vector3_toArray rightEye,
              anchor_noseTip = Vector3_toArray noseTip,
              anchor_chin = Vector3_toArray chin,
              anchor_eyeCenter = Vector3_toArray eyeCenter\<rparr>\<rparr>,
          est'))"

text \<open>
  \<^verbatim>\<open>estimatePose(landmarks)\<close>. The argument \<open>None\<close> is \<^verbatim>\<open>null\<close> or \<^verbatim>\<open>undefined\<close>. The
  result \<open>Inr (None, est)\<close> is the return of \<^verbatim>\<open>null\<close>, \<open>Inl TypeError\<close> is the exception
  thrown when one of the six anchors is a missing entry of a long enough frame.
\<close>

definition estimatePose ::
  "FacePoseEstimator \<Rightarrow> landmarks option \<Rightarrow> js_error + (PoseData option \<times> FacePoseEstimator)" where
  "estimatePose est lmso =
     (case lmso of
        None \<Rightarrow> Inr (None, est)
      | Some lms \<Rightarrow>
          if length lms < 468 then Inr (None, est)
          else
            (case Vector3_fromArray (landmark lms POSE_ANCHORS_LEFT_EYE) of Inl e \<Rightarrow> Inl e | Inr leftEye \<Rightarrow>
            (case Vector3_fromArray (landmark lms POSE_ANCHORS_RIGHT_EYE) of Inl e \<Rightarrow> Inl e | Inr rightEye \<Rightarrow>
            (case Vector3_fromArray (landmark lms POSE_ANCHORS_NOSE_TIP) of Inl e \<Rightarrow> Inl e | Inr noseTip \<Rightarrow>
            (case Vector3_fromArray (landmark lms POSE_ANCHORS_CHIN) of Inl e \<Rightarrow> Inl e | Inr chin \<Rightarrow>
            (case Vector3_fromArray (landmark lms POSE_ANCHORS_LEFT_EYE_INNER) of Inl e \<Rightarrow> Inl e | Inr leftEyeInner \<Rightarrow>
            (case Vector3_fromArray (landmark lms POSE_ANCHORS_RIGHT_EYE_INNER) of Inl e \<Rightarrow> Inl e | Inr rightEyeInner \<Rightarrow>
               (case estimatePose_anchored est leftEye rightEye noseTip chin leftEyeInner rightEyeInner of
                  (pose, est') \<Rightarrow> Inr (Some pose, est')))))))))"

definition getStabilizationMatrix :: "real list list \<Rightarrow> real list list" where
  "getStabilizationMatrix M =
     [[M ! 0 ! 0, M ! 1 ! 0, M ! 2 ! 0],
      [M ! 0 ! 1, M ! 1 ! 1, M ! 2 ! 1],
      [M ! 0 ! 2, M ! 1 ! 2, M ! 2 ! 2]]"

definition FacePoseEstimator_reset :: "FacePoseEstimator \<Rightarrow> FacePoseEstimator" where
  "FacePoseEstimator_reset est =
     \<lparr>yawSmoother = ExponentialSmoother_reset (yawSmoother est),
      pitchSmoother = ExponentialSmoother_reset (pitchSmoother est),
      rollSmoother = ExponentialSmoother_reset (rollSmoother est),
      poseHistory = []\<rparr>"


section \<open>facialAnalysis.js\<close>

subsection \<open>FACIAL_REGIONS and MEASUREMENT_PAIRS\<close>

record EyeRegion =
  eye_outer :: "nat list"
  eye_upper :: "nat list"
  eye_lower :: "nat list"
  eye_center :: nat

definition FACIAL_REGIONS_LEFT_EYE :: EyeRegion where
  "FACIAL_REGIONS_LEFT_EYE =
     \<lparr>eye_outer = [33, 246, 161, 160, 159, 158, 157, 173, 133],
      eye_upper = [246, 161, 160, 159, 158, 157, 173],
      eye_lower = [33, 7, 163, 144, 145, 153, 154, 155, 133],
      eye_center = 468\<rparr>"

definition FACIAL_REGIONS_RIGHT_EYE :: EyeRegion where
  "FACIAL_REGIONS_RIGHT_EYE =
     \<lparr>eye_outer = [263, 466, 388, 387, 386, 385, 384, 398, 362],
      eye_upper = [466, 388, 387, 386, 385, 384, 398],
      eye_lower = [263, 249, 390, 373, 374, 380, 381, 382, 362],
      eye_center = 473\<rparr>"

definition FACIAL_REGIONS_LEFT_EYEBROW :: "nat list" where
  "FACIAL_REGIONS_LEFT_EYEBROW = [70, 63, 105, 66, 107, 55, 189]"

definition FACIAL_REGIONS_RIGHT_EYEBROW :: "nat list" where
  "FACIAL_REGIONS_RIGHT_EYEBROW = [300, 293, 334, 296, 336, 285, 417]"

definition FACIAL_REGIONS_NOSE_bridge :: "nat list" where
  "FACIAL_REGIONS_NOSE_bridge = [6, 197, 195, 5]"

definition FACIAL_REGIONS_MOUTH_outer_upper :: "nat list" where
  "FACIAL_REGIONS_MOUTH_outer_upper = [61, 185, 40, 39, 37, 0, 267, 269, 270, 409, 291]"

definition FACIAL_REGIONS_MOUTH_outer_lower :: "nat list" where
  "FACIAL_REGIONS_MOUTH_outer_lower = [146, 91, 181, 84, 17, 314, 405, 321, 375, 291]"

definition FACIAL_REGIONS_MOUTH_center_top :: nat where
  "FACIAL_REGIONS_MOUTH_center_top = 13"

definition FACIAL_REGIONS_MOUTH_center_bottom :: nat where
  "FACIAL_REGIONS_MOUTH_center_bottom = 14"

definition FACIAL_REGIONS_JAW_left :: "nat list" where
  "FACIAL_REGIONS_JAW_left = [234, 93, 132, 58, 172, 136, 150, 149, 176, 148, 152]"

definition FACIAL_REGIONS_JAW_right :: "nat list" where
  "FACIAL_REGIONS_JAW_right = [454, 323, 361, 288, 397, 365, 379, 378, 400, 377, 152]"

definition FACIAL_REGIONS_JAW_chin :: "nat list" where
  "FACIAL_REGIONS_JAW_chin = [152, 378, 379, 365, 397, 288, 361, 323, 454]"

definition FACIAL_REGIONS_LEFT_CHEEK :: "nat list" where
  "FACIAL_REGIONS_LEFT_CHEEK = [116, 117, 118, 119, 120, 121, 128, 245]"

definition FACIAL_REGIONS_RIGHT_CHEEK :: "nat list" where
  "FACIAL_REGIONS_RIGHT_CHEEK = [345, 346, 347, 348, 349, 350, 357, 465]"

text \<open>The entries of \<^verbatim>\<open>MEASUREMENT_PAIRS\<close> in the order \<^verbatim>\<open>Object.entries\<close> lists them.\<close>

definition MEASUREMENT_PAIRS :: "(string \<times> nat \<times> nat) list" where
  "MEASUREMENT_PAIRS =
     [(''EYE_TO_EYE'', 33, 263),
      (''LEFT_EYE_WIDTH'', 33, 133),
      (''RIGHT_EYE_WIDTH'', 263, 362),
      (''NOSE_HEIGHT'', 6, 2),
      (''NOSE_WIDTH'', 220, 440),
      (''MOUTH_WIDTH'', 61, 291),
      (''MOUTH_HEIGHT'', 13, 14),
      (''FOREHEAD_TO_NOSE'', 10, 1),
      (''NOSE_TO_CHIN'', 1, 152),
      (''FACE_HEIGHT'', 10, 152),
      (''UPPER_THIRD'', 10, 6),
      (''MIDDLE_THIRD'', 6, 2),
      (''LOWER_THIRD'', 2, 152)]"

subsection \<open>Measurements\<close>

text \<open>
  An object whose keys are measurement names is an association list in insertion order;
  the assignment \<^verbatim>\<open>obj[key] = v\<close> is \<^const>\<open>AList.update\<close> (replace in place, or append),
  the read \<^verbatim>\<open>obj[key]\<close> is \<^const>\<open>map_of\<close>.
\<close>

type_synonym measurements = "(string \<times> real) list"

text \<open>The local function \<^verbatim>\<open>distance\<close> of \<^verbatim>\<open>computeDistances\<close>.\<close>

definition distance :: "point \<Rightarrow> point \<Rightarrow> real" where
  "distance p1 p2 =
     (let dx = c0 p2 - c0 p1; dy = c1 p2 - c1 p1; dz = c2 p2 - c2 p1
      in sqrt (dx * dx + dy * dy + dz * dz))"

definition distance3D :: "point \<Rightarrow> point \<Rightarrow> real" where
  "distance3D p1 p2 = sqrt ((c0 p2 - c0 p1) ^ 2 + (c1 p2 - c1 p1) ^ 2 + (c2 p2 - c2 p1) ^ 2)"

text \<open>One round of the inner \<^verbatim>\<open>forEach\<close> of \<^verbatim>\<open>computeEyeHeight\<close>, on the pair (totalDist, count).\<close>

definition eyeHeight_step :: "point option \<Rightarrow> point option \<Rightarrow> real \<times> nat \<Rightarrow> real \<times> nat" where
  "eyeHeight_step upper lower acc =
     (case (upper, lower) of
        (Some u, Some l) \<Rightarrow> (fst acc + \<bar>c1 u - c1 l\<bar>, snd acc + 1)
      | _ \<Rightarrow> acc)"

definition computeEyeHeight :: "landmarks \<Rightarrow> string \<Rightarrow> real" where
  "computeEyeHeight lms side =
     (let region = (if side = ''left'' then FACIAL_REGIONS_LEFT_EYE else FACIAL_REGIONS_RIGHT_EYE);
          upperPoints = map (landmark lms) (eye_upper region);
          lowerPoints = map (landmark lms) (eye_lower region);
          acc = fold (\<lambda>upper. fold (eyeHeight_step upper) lowerPoints) upperPoints (0, 0)
      in if snd acc > 0 then fst acc / real (snd acc) else 0)"

definition computeMouthOpenness :: "landmarks \<Rightarrow> real" where
  "computeMouthOpenness lms =
     (case (landmark lms FACIAL_REGIONS_MOUTH_center_top,
            landmark lms FACIAL_REGIONS_MOUTH_center_bottom) of
        (Some topLip, Some bottomLip) \<Rightarrow>
          sqrt ((c0 bottomLip - c0 topLip) ^ 2 + (c1 bottomLip - c1 topLip) ^ 2
                + (c2 bottomLip - c2 topLip) ^ 2)
      | _ \<Rightarrow> 0)"

text \<open>One round of the loop of \<^verbatim>\<open>computeDistances\<close> over \<^verbatim>\<open>MEASUREMENT_PAIRS\<close>.\<close>

definition computeDistances_step :: "landmarks \<Rightarrow> string \<times> nat \<times> nat \<Rightarrow> measurements \<Rightarrow> measurements" where
  "computeDistances_step lms entry ds =
     (case entry of (name, idx1, idx2) \<Rightarrow>
        (case (landmark lms idx1, landmark lms idx2) of
           (Some p1, Some p2) \<Rightarrow> AList.update name (distance p1 p2) ds
         | _ \<Rightarrow> ds))"

definition computeDistances :: "landmarks \<Rightarrow> measurements" where
  "computeDistances lms =
     AList.update ''MOUTH_OPENNESS'' (computeMouthOpenness lms)
       (AList.update ''RIGHT_EYE_HEIGHT'' (computeEyeHeight lms ''right'')
          (AList.update ''LEFT_EYE_HEIGHT'' (computeEyeHeight lms ''left'')
             (fold (computeDistances_step lms) MEASUREMENT_PAIRS [])))"

subsection \<open>Symmetry\<close>

text \<open>
  \<^verbatim>\<open>indices.map(idx => landmarks[idx]).filter(p => p)\<close> is
  \<^term>\<open>List.map_filter (landmark lms) indices\<close>: the landmarks that are present, in order.
\<close>

definition getRegionHeight :: "landmarks \<Rightarrow> nat list \<Rightarrow> real" where
  "getRegionHeight lms indices =
     (let points = List.map_filter (landmark lms) indices
      in if length points = 0 then 0
         else foldl (\<lambda>acc p. acc + c1 p) 0 points / real (length points))"

record Symmetry =
  sym_overall :: real
  sym_eyes :: real
  sym_eyebrows :: real
  sym_score :: real

definition computeSymmetry :: "landmarks \<Rightarrow> Symmetry" where
  "computeSymmetry lms =
     (let leftEyeWidth =
            (case (landmark lms 33, landmark lms 133) of
               (Some p, Some q) \<Rightarrow> distance3D p q | _ \<Rightarrow> 0);
          rightEyeWidth =
            (case (landmark lms 263, landmark lms 362) of
               (Some p, Some q) \<Rightarrow> distance3D p q | _ \<Rightarrow> 0);
          eyeSymmetry =
            (if leftEyeWidth > 0 \<and> rightEyeWidth > 0
             then 1 - \<bar>leftEyeWidth - rightEyeWidth\<bar> / max leftEyeWidth rightEyeWidth
             else 1);
          leftBrowHeight = getRegionHeight lms FACIAL_REGIONS_LEFT_EYEBROW;
          rightBrowHeight = getRegionHeight lms FACIAL_REGIONS_RIGHT_EYEBROW;
          browSymmetry =
            (if leftBrowHeight > 0 \<and> rightBrowHeight > 0
             then 1 - \<bar>leftBrowHeight - rightBrowHeight\<bar> / max leftBrowHeight rightBrowHeight
             else 1);
          ov = (eyeSymmetry + browSymmetry) / 2
      in \<lparr>sym_overall = ov, sym_eyes = eyeSymmetry, sym_eyebrows = browSymmetry,
          sym_score = ov * 100\<rparr>)"

subsection \<open>Curvature\<close>

definition curvature_step :: "point list \<Rightarrow> nat \<Rightarrow> real \<Rightarrow> real" where
  "curvature_step points i totalDeviation =
     (let prev = points ! (i - 1); curr = points ! i; nxt = points ! (i + 1);
          v1 = (c0 curr - c0 prev, c1 curr - c1 prev, c2 curr - c2 prev);
          v2 = (c0 nxt - c0 curr, c1 nxt - c1 curr, c2 nxt - c2 curr);
          d = c0 v1 * c0 v2 + c1 v1 * c1 v2 + c2 v1 * c2 v2;
          len1 = sqrt (c0 v1 ^ 2 + c1 v1 ^ 2 + c2 v1 ^ 2);
          len2 = sqrt (c0 v2 ^ 2 + c1 v2 ^ 2 + c2 v2 ^ 2)
      in if len1 > 0 \<and> len2 > 0
         then totalDeviation + arccos (max (- 1) (min 1 (d / (len1 * len2))))
         else totalDeviation)"

definition computeCurvature :: "landmarks \<Rightarrow> nat list \<Rightarrow> real" where
  "computeCurvature lms indices =
     (if length indices < 3 then 0
      else
        (let points = List.map_filter (landmark lms) indices
         in if length points < 3 then 0
            else fold (curvature_step points) [1 ..< length points - 1] 0
                   / real (length points - 2)))"

record Curvature =
  noseBridge :: real
  leftCheek :: real
  rightCheek :: real
  jawLeft :: real
  jawRight :: real
  curv_chin :: real

definition computeRegionalCurvature :: "landmarks \<Rightarrow> Curvature" where
  "computeRegionalCurvature lms =
     \<lparr>noseBridge = computeCurvature lms FACIAL_REGIONS_NOSE_bridge,
      leftCheek = computeCurvature lms FACIAL_REGIONS_LEFT_CHEEK,
      rightCheek = computeCurvature lms FACIAL_REGIONS_RIGHT_CHEEK,
      jawLeft = computeCurvature lms FACIAL_REGIONS_JAW_left,
      jawRight = computeCurvature lms FACIAL_REGIONS_JAW_right,
      curv_chin = computeCurvature lms FACIAL_REGIONS_JAW_chin\<rparr>"


subsection \<open>Expression changes against the baseline\<close>

record Change =
  current :: real
  baseline :: real
  percentChange :: real
  direction :: string

record Expression =
  hasChange :: bool
  changes :: "(string \<times> Change) list"

record HistoryEntry =
  entry_timestamp :: nat
  entry_distances :: measurements
  entry_normalized :: measurements

record FacialAnalyzer =
  measurementHistory :: "HistoryEntry list"
  baselineMeasurements :: "measurements option"

definition FacialAnalyzer_new :: FacialAnalyzer where
  "FacialAnalyzer_new = \<lparr>measurementHistory = [], baselineMeasurements = None\<rparr>"

text \<open>
  One round of the comparison loop of \<^verbatim>\<open>detectExpressionChanges\<close>, on the pair
  (changes, significantChange). The test \<^verbatim>\<open>if (this.baselineMeasurements[key])\<close> is a
  truthiness test: it fails when the key is absent and also when its value is 0.
\<close>

definition compare_step ::
  "measurements \<Rightarrow> string \<times> real \<Rightarrow> (string \<times> Change) list \<times> bool \<Rightarrow> (string \<times> Change) list \<times> bool" where
  "compare_step base entry acc =
     (case entry of (key, val) \<Rightarrow>
        (case map_of base key of
           None \<Rightarrow> acc
         | Some b \<Rightarrow>
             if b = 0 then acc
             else
               (let pc = ((val - b) / b) * 100
                in if \<bar>pc\<bar> > 10
                   then (AList.update key
                           \<lparr>current = val, baseline = b, percentChange = pc,
                            direction = (if pc > 0 then ''increase'' else ''decrease'')\<rparr>
                           (fst acc),
                         True)
                   else acc)))"

text \<open>
  The comparison loop over \<^verbatim>\<open>Object.entries(currentDistances)\<close> against a given baseline,
  and the object \<^verbatim>\<open>{hasChange, changes}\<close> that is returned after it.
\<close>

definition compareToBaseline :: "measurements \<Rightarrow> measurements \<Rightarrow> Expression" where
  "compareToBaseline currentDistances base =
     (let acc = fold (compare_step base) currentDistances ([], False)
      in \<lparr>hasChange = snd acc, changes = fst acc\<rparr>)"

definition detectExpressionChanges :: "FacialAnalyzer \<Rightarrow> measurements \<Rightarrow> Expression \<times> FacialAnalyzer" where
  "detectExpressionChanges an currentDistances =
     (if length (measurementHistory an) < 5
      then (\<lparr>hasChange = False, changes = []\<rparr>, an)
      else
        (case baselineMeasurements an of
           None \<Rightarrow>
             if length (measurementHistory an) \<ge> 10
             then (let base = entry_distances (measurementHistory an ! 5)
                   in (compareToBaseline currentDistances base,
                       an\<lparr>baselineMeasurements := Some base\<rparr>))
             else (\<lparr>hasChange = False, changes = []\<rparr>, an)
         | Some base \<Rightarrow> (compareToBaseline currentDistances base, an)))"

subsection \<open>Normalization and validation\<close>

text \<open>\<^verbatim>\<open>distances.EYE_TO_EYE || 1\<close>: the fallback 1 is taken when the entry is absent or 0.\<close>

definition normalizeToFaceSize :: "measurements \<Rightarrow> measurements" where
  "normalizeToFaceSize ds =
     (let scale = (case map_of ds ''EYE_TO_EYE'' of
                     None \<Rightarrow> 1
                   | Some e \<Rightarrow> if e = 0 then 1 else e)
      in fold (\<lambda>entry nd. AList.update (fst entry) (snd entry / scale) nd) ds [])"

text \<open>
  A warning keeps the name of the check, the offending value and the bound; the source
  formats them into one string.
\<close>

datatype Warning = TooSmall string real real | TooLarge string real real

record Validation =
  valid :: bool
  warnings :: "Warning list"

definition validate_step :: "string \<times> real option \<times> real \<times> real \<Rightarrow> Warning list \<Rightarrow> Warning list" where
  "validate_step chk ws =
     (case chk of (name, v, lo, hi) \<Rightarrow>
        (case v of
           None \<Rightarrow> ws
         | Some a \<Rightarrow>
             if a < lo then ws @ [TooSmall name a lo]
             else if a > hi then ws @ [TooLarge name a hi]
             else ws))"

definition validateAnatomy :: "measurements \<Rightarrow> Validation" where
  "validateAnatomy nd =
     (let checks =
            [(''mouthWidth'', map_of nd ''MOUTH_WIDTH'', 12 / 10, 2),
             (''noseWidth'', map_of nd ''NOSE_WIDTH'', 6 / 10, 12 / 10),
             (''faceHeight'', map_of nd ''FACE_HEIGHT'', 3, 5)];
          ws = fold validate_step checks []
      in \<lparr>valid = (length ws = 0), warnings = ws\<rparr>)"

subsection \<open>Region centers\<close>

definition computeCenter :: "landmarks \<Rightarrow> nat list \<Rightarrow> point option" where
  "computeCenter lms indices =
     (let points = List.map_filter (landmark lms) indices
      in if length points = 0 then None
         else
           (let center = fold (\<lambda>p c. (c0 c + c0 p, c1 c + c1 p, c2 c + c2 p)) points (0, 0, 0)
            in Some (c0 center / real (length points),
                     c1 center / real (length points),
                     c2 center / real (length points))))"

record RegionCenters =
  region_leftEye :: "point option"
  region_rightEye :: "point option"
  region_nose :: "point option"
  region_mouth :: "point option"
  region_leftCheek :: "point option"
  region_rightCheek :: "point option"

definition getRegionCenters :: "landmarks \<Rightarrow> RegionCenters" where
  "getRegionCenters lms =
     \<lparr>region_leftEye = computeCenter lms (eye_outer FACIAL_REGIONS_LEFT_EYE),
      region_rightEye = computeCenter lms (eye_outer FACIAL_REGIONS_RIGHT_EYE),
      region_nose = computeCenter lms FACIAL_REGIONS_NOSE_bridge,
      region_mouth = computeCenter lms
        (FACIAL_REGIONS_MOUTH_outer_upper @ FACIAL_REGIONS_MOUTH_outer_lower),
      region_leftCheek = computeCenter lms FACIAL_REGIONS_LEFT_CHEEK,
      region_rightCheek = computeCenter lms FACIAL_REGIONS_RIGHT_CHEEK\<rparr>"

subsection \<open>analyze\<close>

record AnalysisResult =
  distances :: measurements
  symmetry :: Symmetry
  curvature :: Curvature
  expression :: Expression
  normalized :: measurements
  validation :: Validation
  regions :: RegionCenters

text \<open>
  The body of \<^verbatim>\<open>analyze\<close> once the length guard has passed, on the array \<^verbatim>\<open>points\<close>.
  The argument \<open>now\<close> is the value of \<^verbatim>\<open>Date.now()\<close> at the call.
\<close>

definition analyze_points :: "FacialAnalyzer \<Rightarrow> nat \<Rightarrow> landmarks \<Rightarrow> AnalysisResult \<times> FacialAnalyzer" where
  "analyze_points an now points =
     (let ds = computeDistances points;
          sym = computeSymmetry points;
          curv = computeRegionalCurvature points;
          (expr, an1) = detectExpressionChanges an ds;
          nd = normalizeToFaceSize ds;
          val = validateAnatomy nd;
          pushed = measurementHistory an1
                     @ [\<lparr>entry_timestamp = now, entry_distances = ds, entry_normalized = nd\<rparr>];
          hist = (if length pushed > maxHistoryLength then tl pushed else pushed)
      in (\<lparr>distances = ds, symmetry = sym, curvature = curv, expression = expr,
           normalized = nd, validation = val, regions = getRegionCenters points\<rparr>,
          an1\<lparr>measurementHistory := hist\<rparr>))"

text \<open>
  \<^verbatim>\<open>analyze(landmarks, centeredLandmarks = null)\<close>; \<open>None\<close> stands for \<^verbatim>\<open>null\<close> or
  \<^verbatim>\<open>undefined\<close> in both arguments. The result \<open>None\<close> is the return of \<^verbatim>\<open>null\<close>.
\<close>

definition analyze ::
  "FacialAnalyzer \<Rightarrow> nat \<Rightarrow> landmarks option \<Rightarrow> landmarks option
     \<Rightarrow> AnalysisResult option \<times> FacialAnalyzer" where
  "analyze an now lmso centeredLandmarks =
     (case lmso of
        None \<Rightarrow> (None, an)
      | Some lms \<Rightarrow>
          if length lms < 468 then (None, an)
          else
            (let points = (case centeredLandmarks of Some c \<Rightarrow> c | None \<Rightarrow> lms)
             in case analyze_points an now points of (res, an') \<Rightarrow> (Some res, an')))"

definition resetBaseline :: "FacialAnalyzer \<Rightarrow> FacialAnalyzer" where
  "resetBaseline an = an\<lparr>baselineMeasurements := None, measurementHistory := []\<rparr>"


section \<open>Sessions\<close>

text \<open>
  A session submits frames one after another to one instance, as the caller's effect hook
  does. A session of the pose estimator ends at the first exception.
\<close>

fun estimatePoses ::
  "FacePoseEstimator \<Rightarrow> landmarks option list
     \<Rightarrow> js_error + (PoseData option list \<times> FacePoseEstimator)" where
  "estimatePoses est [] = Inr ([], est)"
| "estimatePoses est (f # fs) =
     (case estimatePose est f of
        Inl e \<Rightarrow> Inl e
      | Inr (r, est1) \<Rightarrow>
          (case estimatePoses est1 fs of
             Inl e \<Rightarrow> Inl e
           | Inr (rs, est2) \<Rightarrow> Inr (r # rs, est2)))"

text \<open>One call of \<^verbatim>\<open>analyze\<close>: the time of the call and the two arguments.\<close>

type_synonym analyze_call = "nat \<times> landmarks option \<times> landmarks option"

fun analyze_call :: "FacialAnalyzer \<Rightarrow> analyze_call \<Rightarrow> AnalysisResult option \<times> FacialAnalyzer" where
  "analyze_call an (now, lmso, cen) = analyze an now lmso cen"

fun analyzeAll ::
  "FacialAnalyzer \<Rightarrow> analyze_call list \<Rightarrow> AnalysisResult option list \<times> FacialAnalyzer" where
  "analyzeAll an [] = ([], an)"
| "analyzeAll an (c # cs) =
     (case analyze_call an c of
        (r, an1) \<Rightarrow> (case analyzeAll an1 cs of (rs, an2) \<Rightarrow> (r # rs, an2)))"

text \<open>A call passes the length guard when its first argument has at least 468 entries.\<close>

fun accepted :: "analyze_call \<Rightarrow> bool" where
  "accepted (now, lmso, cen) = (case lmso of None \<Rightarrow> False | Some lms \<Rightarrow> 468 \<le> length lms)"

text \<open>
  The array \<^verbatim>\<open>points\<close> of an accepted call, the distances computed from it and the entry
  that the call pushes onto the measurement history.
\<close>

fun call_points :: "analyze_call \<Rightarrow> landmarks" where
  "call_points (now, lmso, cen) =
     (case cen of Some c \<Rightarrow> c | None \<Rightarrow> (case lmso of Some lms \<Rightarrow> lms | None \<Rightarrow> []))"

definition call_distances :: "analyze_call \<Rightarrow> measurements" where
  "call_distances c = computeDistances (call_points c)"

definition call_entry :: "analyze_call \<Rightarrow> HistoryEntry" where
  "call_entry c =
     \<lparr>entry_timestamp = fst c, entry_distances = call_distances c,
      entry_normalized = normalizeToFaceSize (call_distances c)\<rparr>"

text \<open>
  A frame is valid for the pose estimator when it passes the length guard and its six
  anchors are present, so that no read of an anchor throws.
\<close>

definition anchors_present :: "landmarks \<Rightarrow> bool" where
  "anchors_present lms =
     (\<forall>i \<in> set [POSE_ANCHORS_LEFT_EYE, POSE_ANCHORS_RIGHT_EYE, POSE_ANCHORS_NOSE_TIP,
                 POSE_ANCHORS_CHIN, POSE_ANCHORS_LEFT_EYE_INNER, POSE_ANCHORS_RIGHT_EYE_INNER].
        landmark lms i \<noteq> None)"

text \<open>
  The analyzer is ready to compare against \<open>base\<close>: its history holds at least 10 entries,
  and its baseline is \<open>base\<close> already or, when none is set yet, \<open>base\<close> is what sits at
  history position 5, where the next comparison takes it from.
\<close>

definition baseline_ready :: "measurements \<Rightarrow> FacialAnalyzer \<Rightarrow> bool" where
  "baseline_ready base an =
     (10 \<le> length (measurementHistory an)
      \<and> (case baselineMeasurements an of
            None \<Rightarrow> entry_distances (measurementHistory an ! 5) = base
          | Some b \<Rightarrow> b = base))"

text \<open>The last \<open>n\<close> elements of a list, in their order: the most recent \<open>n\<close> submissions.\<close>

definition most_recent :: "nat \<Rightarrow> 'a list \<Rightarrow> 'a list" where
  "most_recent n xs = drop (length xs - n) xs"


section \<open>Notions of the specification\<close>

subsection \<open>Matrices\<close>

text \<open>Product, identity and determinant of 3 by 3 matrices given as rows.\<close>

definition mat_entry :: "real list list \<Rightarrow> real list list \<Rightarrow> nat \<Rightarrow> nat \<Rightarrow> real" where
  "mat_entry A B i j = A ! i ! 0 * B ! 0 ! j + A ! i ! 1 * B ! 1 ! j + A ! i ! 2 * B ! 2 ! j"

definition mat_mult :: "real list list \<Rightarrow> real list list \<Rightarrow> real list list" where
  "mat_mult A B = map (\<lambda>i. map (\<lambda>j. mat_entry A B i j) [0, 1, 2]) [0, 1, 2]"

definition identity3 :: "real list list" where
  "identity3 = [[1, 0, 0], [0, 1, 0], [0, 0, 1]]"

definition det3 :: "real list list \<Rightarrow> real" where
  "det3 M =
     M ! 0 ! 0 * (M ! 1 ! 1 * M ! 2 ! 2 - M ! 1 ! 2 * M ! 2 ! 1)
     - M ! 0 ! 1 * (M ! 1 ! 0 * M ! 2 ! 2 - M ! 1 ! 2 * M ! 2 ! 0)
     + M ! 0 ! 2 * (M ! 1 ! 0 * M ! 2 ! 1 - M ! 1 ! 1 * M ! 2 ! 0)"

text \<open>
  The rotation matrix of the ZYX convention for angles in degrees: the rotation about the
  z axis by the yaw, times the rotation about the y axis by the pitch, times the rotation
  about the x axis by the roll.
\<close>

definition radians :: "real \<Rightarrow> real" where
  "radians d = d * pi / 180"

definition composeZYX :: "real \<Rightarrow> real \<Rightarrow> real \<Rightarrow> real list list" where
  "composeZYX yw pt rl =
     (let cy = cos (radians yw); sy = sin (radians yw);
          cp = cos (radians pt); sp = sin (radians pt);
          cr = cos (radians rl); sr = sin (radians rl)
      in [[cy * cp, cy * sp * sr - sy * cr, cy * sp * cr + sy * sr],
          [sy * cp, sy * sp * sr + cy * cr, sy * sp * cr - cy * sr],
          [- sp, cp * sr, cp * cr]])"

subsection \<open>Standard deviation\<close>

definition mean :: "real list \<Rightarrow> real" where
  "mean xs = sum_list xs / real (length xs)"

definition std_dev :: "real list \<Rightarrow> real" where
  "std_dev xs = sqrt (sum_list (map (\<lambda>a. (a - mean xs)\<^sup>2) xs) / real (length xs))"

subsection \<open>Scaled and mirrored frames\<close>

definition scale_point :: "real \<Rightarrow> point \<Rightarrow> point" where
  "scale_point k p = (k * c0 p, k * c1 p, k * c2 p)"

definition scale_frame :: "real \<Rightarrow> landmarks \<Rightarrow> landmarks" where
  "scale_frame k lms = map (map_option (scale_point k)) lms"

text \<open>
  The left and right landmarks that \<^verbatim>\<open>computeSymmetry\<close> compares: the eye corners, and
  the eyebrow landmarks paired by their position in the two eyebrow lists.
\<close>

definition mirror_pairs :: "(nat \<times> nat) list" where
  "mirror_pairs =
     [(33, 263), (133, 362)] @ zip FACIAL_REGIONS_LEFT_EYEBROW FACIAL_REGIONS_RIGHT_EYEBROW"

text \<open>
  Two entries are mirror images about the vertical plane \<open>x = m\<close> when both are missing, or
  both are present with the same y and z and with x coordinates that add up to \<open>2 * m\<close>.
\<close>

fun mirror_images :: "real \<Rightarrow> point option \<Rightarrow> point option \<Rightarrow> bool" where
  "mirror_images m None None = True"
| "mirror_images m (Some p) (Some q) = (c0 p + c0 q = 2 * m \<and> c1 p = c1 q \<and> c2 p = c2 q)"
| "mirror_images m _ _ = False"

definition mirror_symmetric :: "real \<Rightarrow> landmarks \<Rightarrow> bool" where
  "mirror_symmetric m lms =
     (\<forall>pr \<in> set mirror_pairs. mirror_images m (landmark lms (fst pr)) (landmark lms (snd pr)))"


subsection \<open>Non-degenerate anchors\<close>

text \<open>
  The vector of an anchor landmark, the eye axis (left outer corner to right outer corner)
  and the nose-chin axis (nose tip to chin). The anchors are non-degenerate when the eyes
  are distinct, the chin is distinct from the nose tip, and the two axes are not parallel.
\<close>

definition anchor_vector :: "landmarks \<Rightarrow> nat \<Rightarrow> Vector3" where
  "anchor_vector lms i =
     (case landmark lms i of Some p \<Rightarrow> Vector3 (c0 p) (c1 p) (c2 p) | None \<Rightarrow> Vector3 0 0 0)"

definition eye_axis :: "landmarks \<Rightarrow> Vector3" where
  "eye_axis lms =
     Vector3_subtract (anchor_vector lms POSE_ANCHORS_RIGHT_EYE) (anchor_vector lms POSE_ANCHORS_LEFT_EYE)"

definition nose_chin_axis :: "landmarks \<Rightarrow> Vector3" where
  "nose_chin_axis lms =
     Vector3_subtract (anchor_vector lms POSE_ANCHORS_CHIN) (anchor_vector lms POSE_ANCHORS_NOSE_TIP)"

definition non_degenerate :: "landmarks \<Rightarrow> bool" where
  "non_degenerate lms =
     (eye_axis lms \<noteq> Vector3 0 0 0 \<and> nose_chin_axis lms \<noteq> Vector3 0 0 0
      \<and> Vector3_cross (eye_axis lms) (nose_chin_axis lms) \<noteq> Vector3 0 0 0)"


subsection \<open>Percent change\<close>

text \<open>
  The percent change in the words of the specification,
  \<open>(current - baseline) / baseline * 100\<close>, as JavaScript arithmetic evaluates it: a division
  by 0 gives an infinity, or NaN for \<open>0 / 0\<close>. Both infinities exceed 10 in absolute value,
  NaN does not.
\<close>

datatype js_quotient = Finite real | PlusInfinity | MinusInfinity | NotANumber

definition claimed_percent_change :: "real \<Rightarrow> real \<Rightarrow> js_quotient" where
  "claimed_percent_change cur b =
     (if b \<noteq> 0 then Finite ((cur - b) / b * 100)
      else if 0 < cur - b then PlusInfinity
      else if cur - b < 0 then MinusInfinity
      else NotANumber)"

fun exceeds_ten :: "js_quotient \<Rightarrow> bool" where
  "exceeds_ten (Finite a) = (10 < \<bar>a\<bar>)"
| "exceeds_ten PlusInfinity = True"
| "exceeds_ten MinusInfinity = True"
| "exceeds_ten NotANumber = False"

subsection \<open>Bilateral symmetry\<close>

text \<open>
  The width of an eye: the 3D distance between its two corners, and 0 when a corner is
  missing.
\<close>

definition eye_width :: "landmarks \<Rightarrow> nat \<Rightarrow> nat \<Rightarrow> real" where
  "eye_width lms i j =
     (case (landmark lms i, landmark lms j) of
        (Some p, Some q) \<Rightarrow> sqrt ((c0 q - c0 p)\<^sup>2 + (c1 q - c1 p)\<^sup>2 + (c2 q - c2 p)\<^sup>2)
      | _ \<Rightarrow> 0)"

text \<open>The sub-score of a bilateral pair: the ratio when both sides are positive, else 1.\<close>

definition bilateral_ratio :: "real \<Rightarrow> real \<Rightarrow> real" where
  "bilateral_ratio l r = (if 0 < l \<and> 0 < r then 1 - \<bar>l - r\<bar> / max l r else 1)"

text \<open>
  The sub-score in the words of the specification: 1 when either side is zero (a missing
  side measures 0), the ratio otherwise.
\<close>

definition claimed_ratio :: "real \<Rightarrow> real \<Rightarrow> real" where
  "claimed_ratio l r = (if l = 0 \<or> r = 0 then 1 else 1 - \<bar>l - r\<bar> / max l r)"


section \<open>Example frames\<close>

text \<open>
  A frontal face reduced to its anchors: every landmark at the origin, except the right eye
  corner at \<open>(1, 0, 0)\<close>, the chin at \<open>(0, 1, 0)\<close> and the lower lip centre at \<open>(0, 3, 4)\<close>.
\<close>

definition frame_front :: landmarks where
  "frame_front =
     (replicate 468 (Some (0, 0, 0)))[263 := Some (1, 0, 0), 152 := Some (0, 1, 0), 14 := Some (0, 3, 4)]"

text \<open>
  A frame that holds the two outer eye corners only, \<open>w\<close> apart; the other 466 entries are
  missing.
\<close>

definition frame_eyes :: "real \<Rightarrow> landmarks" where
  "frame_eyes w = (replicate 468 None)[33 := Some (0, 0, 0), 263 := Some (w, 0, 0)]"

text \<open>
  A frame that holds the two outer eye corners, 10 apart, and the two inner lip centres, 5
  apart; the other 464 entries are missing.
\<close>

definition frame_mouth_open :: landmarks where
  "frame_mouth_open =
     (replicate 468 None)
       [33 := Some (0, 0, 0), 263 := Some (10, 0, 0), 13 := Some (0, 0, 0), 14 := Some (0, 3, 4)]"

text \<open>The estimator after the frame \<open>frame_front\<close> was submitted to a new estimator.\<close>

definition estimator_after_front :: FacePoseEstimator where
  "estimator_after_front =
     \<lparr>yawSmoother = \<lparr>alpha = 3 / 10, smoothed = Some 0\<rparr>,
      pitchSmoother = \<lparr>alpha = 3 / 10, smoothed = Some 0\<rparr>,
      rollSmoother = \<lparr>alpha = 3 / 10, smoothed = Some 0\<rparr>,
      poseHistory = [\<lparr>yaw = 0, pitch = 0, roll = 0\<rparr>]\<rparr>"

text \<open>Thirty equal smoothed angle triples.\<close>

definition constant_history :: "EulerAngles list" where
  "constant_history = replicate 30 \<lparr>yaw = 0, pitch = 0, roll = 0\<rparr>"

text \<open>Thirty smoothed angle triples whose yaw alternates between -20 and 20.\<close>

definition alternating_history :: "EulerAngles list" where
  "alternating_history =
     concat (replicate 15 [\<lparr>yaw = - 20, pitch = 0, roll = 0\<rparr>, \<lparr>yaw = 20, pitch = 0, roll = 0\<rparr>])"

text \<open>
  A frame in which the two outer eye corners coincide: every landmark at the origin, except
  the lower lip centre at \<open>(0, 3, 4)\<close>.
\<close>

definition frame_eyes_closed :: landmarks where
  "frame_eyes_closed = (replicate 468 (Some (0, 0, 0)))[14 := Some (0, 3, 4)]"

text \<open>
  A frame that is mirror-symmetric about the plane \<open>x = 0\<close>, with eyes of width 1: the
  outer corners at \<open>x = -2\<close> and \<open>x = 2\<close>, the inner corners at \<open>x = -1\<close> and \<open>x = 1\<close>,
  every other landmark at \<open>(0, 1, 0)\<close>.
\<close>

definition frame_mirrored :: landmarks where
  "frame_mirrored =
     (replicate 468 (Some (0, 1, 0)))
       [33 := Some (- 2, 1, 0), 263 := Some (2, 1, 0), 133 := Some (- 1, 1, 0), 362 := Some (1, 1, 0)]"

text \<open>
  A frame below the origin: every landmark at height \<open>y = -1\<close>, except the seven landmarks
  of the right eyebrow at \<open>y = -2\<close>.
\<close>

definition frame_low_brows :: landmarks where
  "frame_low_brows =
     (replicate 468 (Some (0, - 1, 0)))
       [300 := Some (0, - 2, 0), 293 := Some (0, - 2, 0), 334 := Some (0, - 2, 0),
        296 := Some (0, - 2, 0), 336 := Some (0, - 2, 0), 285 := Some (0, - 2, 0),
        417 := Some (0, - 2, 0)]"

section \<open>Rejected frames\<close>

lemma estimatePose_rejects:
  "(case lmso of None \<Rightarrow> True | Some lms \<Rightarrow> length lms < 468) \<Longrightarrow> estimatePose est lmso = Inr (None, est)"
  by (simp add: estimatePose_def split: option.splits)

lemma analyze_rejects:
  "(case lmso of None \<Rightarrow> True | Some lms \<Rightarrow> length lms < 468) \<Longrightarrow> analyze an now lmso cen = (None, an)"
  by (cases lmso) (simp_all add: analyze_def)

text \<open>
  Claim C4. When the landmarks argument is null or undefined, or has fewer than 468 entries,
  \<^verbatim>\<open>analyze\<close> and \<^verbatim>\<open>estimatePose\<close> both return null, neither throws, and the instance
  is left as it was: measurement history and baseline of the analyzer, pose history and the
  three smoothers of the estimator.
\<close>

theorem insufficient_landmarks_rejected:
  assumes "lmso = None \<or> (\<exists>lms. lmso = Some lms \<and> length lms < 468)"
  shows "analyze an now lmso cen = (None, an) \<and> estimatePose est lmso = Inr (None, est)"
  using assms by (auto simp: analyze_rejects estimatePose_rejects)

theorem insufficient_landmarks_rejected_witness:
  "analyze FacialAnalyzer_new 0 None None = (None, FacialAnalyzer_new)
   \<and> estimatePose FacePoseEstimator_new None = Inr (None, FacePoseEstimator_new)
   \<and> length (replicate 467 (Some (0, 0, 0)) :: landmarks) < 468
   \<and> analyze FacialAnalyzer_new 0 (Some (replicate 467 (Some (0, 0, 0)))) None = (None, FacialAnalyzer_new)
   \<and> estimatePose FacePoseEstimator_new (Some (replicate 467 (Some (0, 0, 0))))
       = Inr (None, FacePoseEstimator_new)"
  using insufficient_landmarks_rejected [of None FacialAnalyzer_new 0 None FacePoseEstimator_new]
        insufficient_landmarks_rejected
          [of "Some (replicate 467 (Some (0, 0, 0)))" FacialAnalyzer_new 0 None FacePoseEstimator_new]
  by simp

section \<open>Pose sessions\<close>

lemma computeStability_short:
  "length (poseHistory est) < 5 \<Longrightarrow>
   computeStability est = \<lparr>stab_overall = 1, stab_yaw = 1, stab_pitch = 1, stab_roll = 1\<rparr>"
  by (simp add: computeStability_def)

lemma estimatePose_anchored_props:
  assumes "estimatePose_anchored est a b c d e g = (r, est1)"
  shows "poseHistory est1 =
           (if length (poseHistory est @ [smoothedAngles r]) > maxHistoryLength
            then tl (poseHistory est @ [smoothedAngles r])
            else poseHistory est @ [smoothedAngles r])"
    and "stability r = computeStability est1"
  using assms
  by (auto simp: estimatePose_anchored_def Let_def split: prod.splits)

lemma estimatePose_result:
  assumes "estimatePose est f = Inr (ro, est1)"
  shows "(ro = None \<and> est1 = est)
         \<or> (\<exists>r a b c d e g. ro = Some r \<and> estimatePose_anchored est a b c d e g = (r, est1))"
  using assms
  by (auto simp: estimatePose_def split: option.splits if_splits sum.splits prod.splits)

lemma estimatePose_history_length:
  assumes "estimatePose est f = Inr (ro, est1)"
  shows "length (poseHistory est1) \<le> length (poseHistory est) + 1"
  using estimatePose_result [OF assms] estimatePose_anchored_props(1)
  by (fastforce split: if_splits)

lemma first_frames_unstable:
  "estimatePoses est fs = Inr (rs, est') \<Longrightarrow> i < length rs \<Longrightarrow> length (poseHistory est) + i < 4 \<Longrightarrow>
   rs ! i = Some r \<Longrightarrow>
   stability r = \<lparr>stab_overall = 1, stab_yaw = 1, stab_pitch = 1, stab_roll = 1\<rparr>"
proof (induction fs arbitrary: est rs i)
  case Nil
  then show ?case by simp
next
  case (Cons f fs)
  from Cons.prems(1) obtain r0 est1 rs1 where
    step: "estimatePose est f = Inr (r0, est1)" and
    rest: "estimatePoses est1 fs = Inr (rs1, est')" and
    rs: "rs = r0 # rs1"
    by (auto split: sum.splits prod.splits)
  have len: "length (poseHistory est1) \<le> length (poseHistory est) + 1"
    by (rule estimatePose_history_length [OF step])
  show ?case
  proof (cases i)
    case 0
    with Cons.prems(4) rs have "r0 = Some r" by simp
    with estimatePose_result [OF step] obtain a b c d e g where
      "estimatePose_anchored est a b c d e g = (r, est1)" by auto
    then have "stability r = computeStability est1"
      by (rule estimatePose_anchored_props(2))
    moreover from len Cons.prems(3) have "length (poseHistory est1) < 5" by simp
    ultimately show ?thesis by (simp add: computeStability_short)
  next
    case (Suc j)
    with Cons.prems rs len have "j < length rs1" "length (poseHistory est1) + j < 4" "rs1 ! j = Some r"
      by simp_all
    with Cons.IH [OF rest] show ?thesis by blast
  qed
qed

lemma most_recent_append:
  "most_recent n (most_recent n xs @ ys) = most_recent n (xs @ ys)"
proof (cases "length xs \<le> n")
  case True
  then show ?thesis by (simp add: most_recent_def)
next
  case False
  then have "length ys + (length xs - n) = length xs + length ys - n" by simp
  with False show ?thesis by (simp add: most_recent_def)
qed

lemma shift_is_most_recent:
  "length h \<le> maxHistoryLength \<Longrightarrow>
   (if length (h @ [s]) > maxHistoryLength then tl (h @ [s]) else h @ [s])
     = most_recent maxHistoryLength (h @ [s])"
proof (cases "length h = maxHistoryLength")
  case True
  then have "length (h @ [s]) - maxHistoryLength = Suc 0" by simp
  then have "most_recent maxHistoryLength (h @ [s]) = tl (h @ [s])"
    by (simp only: most_recent_def drop_Suc drop_0)
  with True show ?thesis by simp
next
  case False
  assume "length h \<le> maxHistoryLength"
  with False show ?thesis by (simp add: most_recent_def)
qed

lemma length_most_recent: "length (most_recent n xs) = min (length xs) n"
  by (auto simp: most_recent_def)

lemma Vector3_fromArray_Some: "Vector3_fromArray (Some p) = Inr (Vector3 (c0 p) (c1 p) (c2 p))"
  by (cases p) (simp add: c0_def c1_def c2_def)

lemma estimatePose_accepts:
  assumes "468 \<le> length lms" and "anchors_present lms"
  shows "\<exists>r est1. estimatePose est (Some lms) = Inr (Some r, est1)"
proof -
  from assms(2) obtain p1 p2 p3 p4 p5 p6 where
    "landmark lms POSE_ANCHORS_LEFT_EYE = Some p1" "landmark lms POSE_ANCHORS_RIGHT_EYE = Some p2"
    "landmark lms POSE_ANCHORS_NOSE_TIP = Some p3" "landmark lms POSE_ANCHORS_CHIN = Some p4"
    "landmark lms POSE_ANCHORS_LEFT_EYE_INNER = Some p5" "landmark lms POSE_ANCHORS_RIGHT_EYE_INNER = Some p6"
    by (auto simp: anchors_present_def)
  with assms(1) show ?thesis
    by (simp add: estimatePose_def Vector3_fromArray_Some split: prod.splits)
qed

lemma estimatePoses_fifo:
  assumes "\<forall>f \<in> set fs. 468 \<le> length f \<and> anchors_present f"
    and "length (poseHistory est) \<le> maxHistoryLength"
  shows "\<exists>rs est'. estimatePoses est (map Some fs) = Inr (map Some rs, est')
           \<and> length rs = length fs
           \<and> poseHistory est' = most_recent maxHistoryLength (poseHistory est @ map smoothedAngles rs)"
  using assms
proof (induction fs arbitrary: est)
  case Nil
  then show ?case by (simp add: most_recent_def)
next
  case (Cons f fs)
  from Cons.prems(1) have "468 \<le> length f" "anchors_present f" by simp_all
  then obtain r est1 where step: "estimatePose est (Some f) = Inr (Some r, est1)"
    using estimatePose_accepts by blast
  with estimatePose_result [OF step] obtain a b c d e g where
    "estimatePose_anchored est a b c d e g = (r, est1)" by auto
  from estimatePose_anchored_props(1) [OF this] Cons.prems(2)
  have h1: "poseHistory est1 = most_recent maxHistoryLength (poseHistory est @ [smoothedAngles r])"
    by (simp only: shift_is_most_recent)
  then have "length (poseHistory est1) \<le> maxHistoryLength"
    by (simp add: length_most_recent)
  with Cons.IH [of est1] Cons.prems(1) obtain rs est' where
    rest: "estimatePoses est1 (map Some fs) = Inr (map Some rs, est')" "length rs = length fs"
      "poseHistory est' = most_recent maxHistoryLength (poseHistory est1 @ map smoothedAngles rs)"
    by auto
  have "estimatePoses est (map Some (f # fs)) = Inr (map Some (r # rs), est')"
    using step rest(1) by simp
  moreover have "poseHistory est' = most_recent maxHistoryLength (poseHistory est @ map smoothedAngles (r # rs))"
    using rest(3) h1 most_recent_append [of maxHistoryLength "poseHistory est @ [smoothedAngles r]" "map smoothedAngles rs"]
    by simp
  ultimately show ?case using rest(2) by (metis length_Cons)
qed


text \<open>
  Claim C10. Whenever the pose history holds fewer than 5 entries, the stability metrics are
  the constant with overall, yaw, pitch and roll all 1, whatever the entries are. This covers
  the first four frames of a session: the result at position \<open>i < 4\<close> of a session that
  starts from a new estimator carries that constant.
\<close>

theorem stability_constant_below_five_entries:
  "(length (poseHistory est) < 5 \<longrightarrow>
      computeStability est = \<lparr>stab_overall = 1, stab_yaw = 1, stab_pitch = 1, stab_roll = 1\<rparr>)
   \<and> (estimatePoses FacePoseEstimator_new fs = Inr (rs, est') \<and> i < length rs \<and> i < 4
        \<and> rs ! i = Some r \<longrightarrow>
      stability r = \<lparr>stab_overall = 1, stab_yaw = 1, stab_pitch = 1, stab_roll = 1\<rparr>)"
  using computeStability_short [of est] first_frames_unstable [of FacePoseEstimator_new fs rs est' i r]
  by (simp add: FacePoseEstimator_new_def)

section \<open>Distances\<close>

lemma map_of_computeDistances_step:
  "map_of (computeDistances_step lms (name, i, j) ds) k =
     (if k = name \<and> landmark lms i \<noteq> None \<and> landmark lms j \<noteq> None
      then Some (distance (the (landmark lms i)) (the (landmark lms j)))
      else map_of ds k)"
  by (auto simp: computeDistances_step_def update_conv' split: option.splits)

lemma eye_to_eye_lookup:
  assumes "landmark lms 33 = Some p" and "landmark lms 263 = Some q"
  shows "map_of (computeDistances lms) ''EYE_TO_EYE'' = Some (distance p q)"
  using assms
  by (simp add: computeDistances_def update_conv' MEASUREMENT_PAIRS_def map_of_computeDistances_step)

lemma mouth_height_lookup:
  assumes "landmark lms 13 = Some p" and "landmark lms 14 = Some q"
  shows "map_of (fold (computeDistances_step lms) MEASUREMENT_PAIRS []) ''MOUTH_HEIGHT''
           = Some (distance p q)"
  using assms
  by (simp add: MEASUREMENT_PAIRS_def map_of_computeDistances_step)

text \<open>
  Claim C9. In a frame where landmarks 13 and 14 are both present, the entries
  MOUTH_OPENNESS and MOUTH_HEIGHT of the computed distances are the same number, the 3D
  Euclidean distance between the two landmarks.
\<close>

theorem mouth_openness_equals_mouth_height:
  assumes "landmark lms 13 = Some p" and "landmark lms 14 = Some q"
  shows "map_of (computeDistances lms) ''MOUTH_OPENNESS''
           = Some (sqrt ((c0 q - c0 p)\<^sup>2 + (c1 q - c1 p)\<^sup>2 + (c2 q - c2 p)\<^sup>2))
         \<and> map_of (computeDistances lms) ''MOUTH_HEIGHT''
           = Some (sqrt ((c0 q - c0 p)\<^sup>2 + (c1 q - c1 p)\<^sup>2 + (c2 q - c2 p)\<^sup>2))"
proof -
  have "map_of (computeDistances lms) ''MOUTH_OPENNESS'' = Some (computeMouthOpenness lms)"
    by (simp add: computeDistances_def update_conv')
  moreover have "computeMouthOpenness lms
                   = sqrt ((c0 q - c0 p)\<^sup>2 + (c1 q - c1 p)\<^sup>2 + (c2 q - c2 p)\<^sup>2)"
    using assms
    by (simp add: computeMouthOpenness_def FACIAL_REGIONS_MOUTH_center_top_def
        FACIAL_REGIONS_MOUTH_center_bottom_def)
  moreover have "map_of (computeDistances lms) ''MOUTH_HEIGHT'' = Some (distance p q)"
    using mouth_height_lookup [OF assms] by (simp add: computeDistances_def update_conv')
  moreover have "distance p q = sqrt ((c0 q - c0 p)\<^sup>2 + (c1 q - c1 p)\<^sup>2 + (c2 q - c2 p)\<^sup>2)"
    by (simp add: distance_def Let_def power2_eq_square)
  ultimately show ?thesis by simp
qed

theorem mouth_openness_equals_mouth_height_witness:
  "landmark frame_front 13 = Some (0, 0, 0) \<and> landmark frame_front 14 = Some (0, 3, 4)
   \<and> map_of (computeDistances frame_front) ''MOUTH_OPENNESS'' = Some 5
   \<and> map_of (computeDistances frame_front) ''MOUTH_HEIGHT'' = Some 5"
proof -
  have a: "landmark frame_front 13 = Some (0, 0, 0)"
    by (simp add: frame_front_def landmark_def)
  have b: "landmark frame_front 14 = Some (0, 3, 4)"
    by (simp add: frame_front_def landmark_def)
  show ?thesis
    using mouth_openness_equals_mouth_height [OF a b] a b by (simp add: c0_def c1_def c2_def)
qed

section \<open>Sessions from a new instance\<close>

lemma frame_front_valid: "468 \<le> length frame_front \<and> anchors_present frame_front"
  by (simp add: frame_front_def anchors_present_def landmark_def POSE_ANCHORS_LEFT_EYE_def
      POSE_ANCHORS_RIGHT_EYE_def POSE_ANCHORS_NOSE_TIP_def POSE_ANCHORS_CHIN_def
      POSE_ANCHORS_LEFT_EYE_INNER_def POSE_ANCHORS_RIGHT_EYE_INNER_def)

theorem stability_constant_below_five_entries_witness:
  "length (poseHistory FacePoseEstimator_new) < 5
   \<and> computeStability FacePoseEstimator_new
       = \<lparr>stab_overall = 1, stab_yaw = 1, stab_pitch = 1, stab_roll = 1\<rparr>
   \<and> (\<exists>r est1. estimatePoses FacePoseEstimator_new [Some frame_front] = Inr ([Some r], est1)
        \<and> stability r = \<lparr>stab_overall = 1, stab_yaw = 1, stab_pitch = 1, stab_roll = 1\<rparr>)"
proof -
  obtain r est1 where
    step: "estimatePose FacePoseEstimator_new (Some frame_front) = Inr (Some r, est1)"
    using estimatePose_accepts frame_front_valid by blast
  then have run: "estimatePoses FacePoseEstimator_new [Some frame_front] = Inr ([Some r], est1)"
    by simp
  have "length (poseHistory FacePoseEstimator_new) < 5"
    by (simp add: FacePoseEstimator_new_def)
  with run show ?thesis
    using stability_constant_below_five_entries
            [of FacePoseEstimator_new "[Some frame_front]" "[Some r]" est1 0 r]
    by simp
qed

section \<open>Analyzer sessions\<close>

lemma detectExpressionChanges_history:
  "measurementHistory (snd (detectExpressionChanges an ds)) = measurementHistory an"
  by (simp add: detectExpressionChanges_def Let_def split: option.splits)

lemma analyze_points_history:
  "measurementHistory (snd (analyze_points an now pts)) =
     (let pushed = measurementHistory an
            @ [\<lparr>entry_timestamp = now, entry_distances = computeDistances pts,
                entry_normalized = normalizeToFaceSize (computeDistances pts)\<rparr>]
      in if length pushed > maxHistoryLength then tl pushed else pushed)"
proof -
  obtain expr an1 where d: "detectExpressionChanges an (computeDistances pts) = (expr, an1)"
    by (cases "detectExpressionChanges an (computeDistances pts)")
  with detectExpressionChanges_history [of an "computeDistances pts"]
  have "measurementHistory an1 = measurementHistory an" by simp
  then show ?thesis by (simp add: analyze_points_def Let_def d)
qed

lemma analyze_call_accepted:
  assumes "accepted c"
  shows "analyze_call an c =
           (Some (fst (analyze_points an (fst c) (call_points c))),
            snd (analyze_points an (fst c) (call_points c)))"
proof -
  obtain now lmso cen where c: "c = (now, lmso, cen)" by (cases c)
  with assms obtain lms where "lmso = Some lms" "468 \<le> length lms"
    by (auto split: option.splits)
  with c show ?thesis
    by (cases cen) (simp_all add: analyze_def split: prod.splits)
qed

lemma analyze_call_history:
  assumes "accepted c" and "length (measurementHistory an) \<le> maxHistoryLength"
  shows "measurementHistory (snd (analyze_call an c))
           = most_recent maxHistoryLength (measurementHistory an @ [call_entry c])"
proof -
  have "measurementHistory (snd (analyze_call an c))
          = (if length (measurementHistory an @ [call_entry c]) > maxHistoryLength
             then tl (measurementHistory an @ [call_entry c])
             else measurementHistory an @ [call_entry c])"
    by (simp add: analyze_call_accepted [OF assms(1)] analyze_points_history call_entry_def
        call_distances_def Let_def)
  then show ?thesis
    by (simp only: shift_is_most_recent [OF assms(2)])
qed

lemma analyzeAll_fifo:
  assumes "\<forall>c \<in> set cs. accepted c" and "length (measurementHistory an) \<le> maxHistoryLength"
  shows "measurementHistory (snd (analyzeAll an cs))
           = most_recent maxHistoryLength (measurementHistory an @ map call_entry cs)
         \<and> length (fst (analyzeAll an cs)) = length cs"
  using assms
proof (induction cs arbitrary: an)
  case Nil
  then show ?case by (simp add: most_recent_def)
next
  case (Cons c cs)
  obtain r an1 where step: "analyze_call an c = (r, an1)" by (cases "analyze_call an c")
  from Cons.prems have acc: "accepted c" by simp
  have h1: "measurementHistory an1
              = most_recent maxHistoryLength (measurementHistory an @ [call_entry c])"
    using analyze_call_history [OF acc Cons.prems(2)] step by simp
  then have "length (measurementHistory an1) \<le> maxHistoryLength"
    by (simp add: length_most_recent)
  with Cons.IH [of an1] Cons.prems(1)
  have ih: "measurementHistory (snd (analyzeAll an1 cs))
              = most_recent maxHistoryLength (measurementHistory an1 @ map call_entry cs)"
       "length (fst (analyzeAll an1 cs)) = length cs"
    by simp_all
  have "measurementHistory (snd (analyzeAll an (c # cs)))
          = most_recent maxHistoryLength (measurementHistory an @ map call_entry (c # cs))"
    using ih(1) h1 step
      most_recent_append [of maxHistoryLength "measurementHistory an @ [call_entry c]" "map call_entry cs"]
    by (simp add: split_def)
  moreover have "length (fst (analyzeAll an (c # cs))) = length (c # cs)"
    using ih(2) step by (simp add: split_def)
  ultimately show ?case by simp
qed

text \<open>
  Claim C6. Both rolling histories are first-in first-out with capacity 30. A session of
  \<open>n\<close> valid frames on a new pose estimator runs to its end without an exception, returns
  \<open>n\<close> poses and leaves as pose history the last \<open>min n 30\<close> smoothed angle triples it
  returned, in the order of submission. A session of \<open>n\<close> accepted calls on a new analyzer
  leaves as measurement history the entries of the last \<open>min n 30\<close> calls, in the order of
  submission. With \<open>n = 35\<close> the length is 30.
\<close>

theorem histories_are_fifo_with_capacity_30:
  "((\<forall>f \<in> set fs. 468 \<le> length f \<and> anchors_present f) \<longrightarrow>
      (\<exists>rs est'. estimatePoses FacePoseEstimator_new (map Some fs) = Inr (map Some rs, est')
         \<and> length rs = length fs
         \<and> poseHistory est' = most_recent 30 (map smoothedAngles rs)
         \<and> length (poseHistory est') = min (length fs) 30))
   \<and> ((\<forall>c \<in> set cs. accepted c) \<longrightarrow>
        measurementHistory (snd (analyzeAll FacialAnalyzer_new cs)) = most_recent 30 (map call_entry cs)
        \<and> length (measurementHistory (snd (analyzeAll FacialAnalyzer_new cs))) = min (length cs) 30)"
proof (intro conjI impI)
  assume "\<forall>f \<in> set fs. 468 \<le> length f \<and> anchors_present f"
  then obtain rs est' where
    run: "estimatePoses FacePoseEstimator_new (map Some fs) = Inr (map Some rs, est')"
      "length rs = length fs"
      "poseHistory est' = most_recent maxHistoryLength (poseHistory FacePoseEstimator_new @ map smoothedAngles rs)"
    using estimatePoses_fifo [of fs FacePoseEstimator_new]
    by (auto simp: FacePoseEstimator_new_def)
  then have "poseHistory est' = most_recent 30 (map smoothedAngles rs)"
    by (simp add: FacePoseEstimator_new_def maxHistoryLength_def)
  moreover from this run(2) have "length (poseHistory est') = min (length fs) 30"
    by (simp add: length_most_recent)
  ultimately show "\<exists>rs est'. estimatePoses FacePoseEstimator_new (map Some fs) = Inr (map Some rs, est')
         \<and> length rs = length fs
         \<and> poseHistory est' = most_recent 30 (map smoothedAngles rs)
         \<and> length (poseHistory est') = min (length fs) 30"
    using run(1,2) by blast
next
  assume a: "\<forall>c \<in> set cs. accepted c"
  from analyzeAll_fifo [OF a, of FacialAnalyzer_new]
  show h: "measurementHistory (snd (analyzeAll FacialAnalyzer_new cs)) = most_recent 30 (map call_entry cs)"
    by (simp add: FacialAnalyzer_new_def maxHistoryLength_def)
  show "length (measurementHistory (snd (analyzeAll FacialAnalyzer_new cs))) = min (length cs) 30"
    by (simp add: h length_most_recent)
qed

theorem histories_are_fifo_with_capacity_30_witness:
  "(\<exists>rs est'. estimatePoses FacePoseEstimator_new (map Some (replicate 35 frame_front))
                   = Inr (map Some rs, est')
         \<and> length rs = 35
         \<and> poseHistory est' = drop 5 (map smoothedAngles rs)
         \<and> length (poseHistory est') = 30)
   \<and> length (measurementHistory
        (snd (analyzeAll FacialAnalyzer_new (replicate 35 (0, Some frame_front, None))))) = 30"
proof -
  have v: "\<forall>f \<in> set (replicate 35 frame_front). 468 \<le> length f \<and> anchors_present f"
    using frame_front_valid by simp
  have a: "\<forall>c \<in> set (replicate 35 (0::nat, Some frame_front, None :: landmarks option)). accepted c"
    using frame_front_valid by simp
  from v a show ?thesis
    using histories_are_fifo_with_capacity_30
            [of "replicate 35 frame_front" "replicate 35 (0, Some frame_front, None)"]
    by (auto simp: most_recent_def)
qed

section \<open>Expression baseline\<close>

subsection \<open>The comparison loop\<close>

lemma compare_step_snd:
  "snd (compare_step base (k, v) acc) =
     (snd acc \<or> (\<exists>b. map_of base k = Some b \<and> b \<noteq> 0 \<and> 10 < \<bar>(v - b) / b * 100\<bar>))"
  by (cases "map_of base k") (simp_all add: compare_step_def Let_def)

lemma fold_compare_snd:
  "snd (fold (compare_step base) cur acc) =
     (snd acc \<or> (\<exists>k v b. (k, v) \<in> set cur \<and> map_of base k = Some b \<and> b \<noteq> 0
                     \<and> 10 < \<bar>(v - b) / b * 100\<bar>))"
proof (induction cur arbitrary: acc)
  case Nil
  then show ?case by simp
next
  case (Cons e cur)
  obtain k v where e: "e = (k, v)" by (cases e)
  have "snd (fold (compare_step base) (e # cur) acc)
          = (snd (compare_step base (k, v) acc)
             \<or> (\<exists>k v b. (k, v) \<in> set cur \<and> map_of base k = Some b \<and> b \<noteq> 0
                     \<and> 10 < \<bar>(v - b) / b * 100\<bar>))"
    by (simp only: fold_simps e Cons.IH)
  also have "\<dots> = (snd acc \<or> (\<exists>k v b. (k, v) \<in> set (e # cur) \<and> map_of base k = Some b \<and> b \<noteq> 0
                     \<and> 10 < \<bar>(v - b) / b * 100\<bar>))"
    unfolding compare_step_snd e by auto
  finally show ?case .
qed

lemma compare_step_fst_other:
  "k' \<noteq> k \<Longrightarrow> map_of (fst (compare_step base (k', v') acc)) k = map_of (fst acc) k"
  by (cases "map_of base k'") (simp_all add: compare_step_def Let_def update_conv')

lemma compare_step_fst_hit:
  assumes "map_of base k = Some b" and "b \<noteq> 0" and "10 < \<bar>(v - b) / b * 100\<bar>"
  shows "map_of (fst (compare_step base (k, v) acc)) k =
           Some \<lparr>current = v, baseline = b, percentChange = (v - b) / b * 100,
                 direction = (if (v - b) / b * 100 > 0 then ''increase'' else ''decrease'')\<rparr>"
  using assms by (simp add: compare_step_def Let_def update_conv')

lemma fold_compare_untouched:
  "k \<notin> fst ` set cur \<Longrightarrow>
   map_of (fst (fold (compare_step base) cur acc)) k = map_of (fst acc) k"
proof (induction cur arbitrary: acc)
  case Nil
  then show ?case by simp
next
  case (Cons e cur)
  obtain k' v' where e: "e = (k', v')" by (cases e)
  with Cons.prems have "k' \<noteq> k" "k \<notin> fst ` set cur" by auto
  then show ?case
    by (simp add: Cons.IH e compare_step_fst_other)
qed

lemma fold_compare_reported:
  assumes "distinct (map fst cur)" and "(k, v) \<in> set cur" and "map_of base k = Some b"
    and "b \<noteq> 0" and "10 < \<bar>(v - b) / b * 100\<bar>"
  shows "map_of (fst (fold (compare_step base) cur acc)) k =
           Some \<lparr>current = v, baseline = b, percentChange = (v - b) / b * 100,
                 direction = (if (v - b) / b * 100 > 0 then ''increase'' else ''decrease'')\<rparr>"
  using assms(1,2)
proof (induction cur arbitrary: acc)
  case Nil
  then show ?case by simp
next
  case (Cons e cur)
  obtain k' v' where e: "e = (k', v')" by (cases e)
  show ?case
  proof (cases "k' = k")
    case True
    with Cons.prems e have v: "v' = v" and notin: "k \<notin> fst ` set cur"
      by (auto simp: image_iff)
    have "map_of (fst (fold (compare_step base) (e # cur) acc)) k
            = map_of (fst (compare_step base (k, v) acc)) k"
      by (simp add: e True v fold_compare_untouched [OF notin])
    then show ?thesis
      by (simp only: compare_step_fst_hit [OF assms(3-5)])
  next
    case False
    with Cons.prems e have "distinct (map fst cur)" "(k, v) \<in> set cur" by auto
    then show ?thesis by (simp add: Cons.IH)
  qed
qed

lemma distinct_fold_computeDistances_step:
  "distinct (map fst ds) \<Longrightarrow> distinct (map fst (fold (computeDistances_step lms) ps ds))"
proof (induction ps arbitrary: ds)
  case Nil
  then show ?case by simp
next
  case (Cons e ps)
  obtain n i j where e: "e = (n, i, j)" by (cases e)
  have "distinct (map fst (computeDistances_step lms e ds))"
    using Cons.prems by (simp add: e computeDistances_step_def distinct_update split: option.splits)
  then show ?case by (simp add: Cons.IH)
qed

lemma distinct_computeDistances: "distinct (map fst (computeDistances lms))"
  by (simp add: computeDistances_def distinct_update distinct_fold_computeDistances_step)

lemma compareToBaseline_hasChange:
  "hasChange (compareToBaseline (computeDistances lms) base) =
     (\<exists>k v b. map_of (computeDistances lms) k = Some v \<and> map_of base k = Some b \<and> b \<noteq> 0
               \<and> 10 < \<bar>(v - b) / b * 100\<bar>)"
  by (simp add: compareToBaseline_def Let_def fold_compare_snd
      map_of_eq_Some_iff [OF distinct_computeDistances])

lemma compareToBaseline_changes:
  assumes "map_of (computeDistances lms) k = Some v" and "map_of base k = Some b"
    and "b \<noteq> 0" and "10 < \<bar>(v - b) / b * 100\<bar>"
  shows "map_of (changes (compareToBaseline (computeDistances lms) base)) k =
           Some \<lparr>current = v, baseline = b, percentChange = (v - b) / b * 100,
                 direction = (if (v - b) / b * 100 > 0 then ''increase'' else ''decrease'')\<rparr>"
proof -
  from assms(1) have "(k, v) \<in> set (computeDistances lms)"
    by (simp add: map_of_eq_Some_iff [OF distinct_computeDistances])
  from fold_compare_reported [OF distinct_computeDistances this assms(2-4)]
  show ?thesis by (simp add: compareToBaseline_def Let_def)
qed

subsection \<open>Warm-up and capture\<close>

lemma analyze_points_expression:
  "expression (fst (analyze_points an now pts)) = fst (detectExpressionChanges an (computeDistances pts))"
  by (simp add: analyze_points_def Let_def split_def)

lemma analyze_points_baseline:
  "baselineMeasurements (snd (analyze_points an now pts))
     = baselineMeasurements (snd (detectExpressionChanges an (computeDistances pts)))"
  by (simp add: analyze_points_def Let_def split_def)

lemma analyze_call_not_accepted: "\<not> accepted c \<Longrightarrow> analyze_call an c = (None, an)"
proof -
  assume n: "\<not> accepted c"
  obtain now lmso cen where c: "c = (now, lmso, cen)" by (cases c)
  with n show ?thesis by (simp add: analyze_rejects split: option.splits)
qed

lemma detect_warming_up:
  assumes "baselineMeasurements an = None" and "length (measurementHistory an) < 10"
  shows "detectExpressionChanges an ds = (\<lparr>hasChange = False, changes = []\<rparr>, an)"
  using assms by (simp add: detectExpressionChanges_def)

lemma detect_capture:
  assumes "baselineMeasurements an = None" and "10 \<le> length (measurementHistory an)"
  shows "detectExpressionChanges an ds =
           (compareToBaseline ds (entry_distances (measurementHistory an ! 5)),
            an\<lparr>baselineMeasurements := Some (entry_distances (measurementHistory an ! 5))\<rparr>)"
  using assms by (simp add: detectExpressionChanges_def Let_def)

lemma detect_with_baseline:
  assumes "baselineMeasurements an = Some base" and "5 \<le> length (measurementHistory an)"
  shows "detectExpressionChanges an ds = (compareToBaseline ds base, an)"
  using assms by (simp add: detectExpressionChanges_def)

lemma detect_keeps_baseline:
  assumes "baselineMeasurements an = Some base"
  shows "baselineMeasurements (snd (detectExpressionChanges an ds)) = Some base"
  using assms by (simp add: detectExpressionChanges_def)

lemma analyze_call_keeps_baseline:
  assumes "baselineMeasurements an = Some base"
  shows "baselineMeasurements (snd (analyze_call an c)) = Some base"
proof (cases "accepted c")
  case True
  then show ?thesis
    by (simp add: analyze_call_accepted analyze_points_baseline detect_keeps_baseline [OF assms])
next
  case False
  then show ?thesis by (simp add: analyze_call_not_accepted assms)
qed

lemma analyzeAll_keeps_baseline:
  "baselineMeasurements an = Some base \<Longrightarrow>
   baselineMeasurements (snd (analyzeAll an cs)) = Some base"
proof (induction cs arbitrary: an)
  case Nil
  then show ?case by simp
next
  case (Cons c cs)
  from analyze_call_keeps_baseline [OF Cons.prems, of c]
  have "baselineMeasurements (snd (analyzeAll (snd (analyze_call an c)) cs)) = Some base"
    by (rule Cons.IH)
  then show ?case by (simp add: split_def)
qed

lemma analyze_call_history_grows:
  assumes "10 \<le> length (measurementHistory an)"
  shows "10 \<le> length (measurementHistory (snd (analyze_call an c)))"
proof (cases "accepted c")
  case True
  then show ?thesis
    using assms
    by (auto simp: analyze_call_accepted analyze_points_history Let_def maxHistoryLength_def)
next
  case False
  then show ?thesis by (simp add: analyze_call_not_accepted assms)
qed

lemma analyzeAll_history_grows:
  "10 \<le> length (measurementHistory an) \<Longrightarrow>
   10 \<le> length (measurementHistory (snd (analyzeAll an cs)))"
proof (induction cs arbitrary: an)
  case Nil
  then show ?case by simp
next
  case (Cons c cs)
  from analyze_call_history_grows [OF Cons.prems, of c]
  have "10 \<le> length (measurementHistory (snd (analyzeAll (snd (analyze_call an c)) cs)))"
    by (rule Cons.IH)
  then show ?case by (simp add: split_def)
qed

lemma analyzeAll_append:
  "analyzeAll an (xs @ ys) =
     (fst (analyzeAll an xs) @ fst (analyzeAll (snd (analyzeAll an xs)) ys),
      snd (analyzeAll (snd (analyzeAll an xs)) ys))"
  by (induction xs arbitrary: an) (simp_all add: split_def)

text \<open>The first ten accepted calls: no change is reported and no baseline is set.\<close>

lemma warmup:
  assumes "\<forall>c \<in> set cs. accepted c" and "baselineMeasurements an = None"
    and "length (measurementHistory an) + length cs \<le> 10"
  shows "(\<forall>r \<in> set (fst (analyzeAll an cs)).
            \<exists>res. r = Some res \<and> expression res = \<lparr>hasChange = False, changes = []\<rparr>)
         \<and> baselineMeasurements (snd (analyzeAll an cs)) = None
         \<and> measurementHistory (snd (analyzeAll an cs)) = measurementHistory an @ map call_entry cs"
  using assms
proof (induction cs arbitrary: an)
  case Nil
  then show ?case by simp
next
  case (Cons c cs)
  from Cons.prems have acc: "accepted c" and short: "length (measurementHistory an) < 10"
    by simp_all
  let ?res = "fst (analyze_points an (fst c) (call_points c))"
  let ?an1 = "snd (analyze_points an (fst c) (call_points c))"
  have step: "analyze_call an c = (Some ?res, ?an1)"
    by (rule analyze_call_accepted [OF acc])
  have det: "detectExpressionChanges an (computeDistances (call_points c))
               = (\<lparr>hasChange = False, changes = []\<rparr>, an)"
    by (rule detect_warming_up [OF Cons.prems(2) short])
  have e: "expression ?res = \<lparr>hasChange = False, changes = []\<rparr>"
    by (simp add: analyze_points_expression det)
  have b: "baselineMeasurements ?an1 = None"
    by (simp add: analyze_points_baseline det Cons.prems(2))
  have h: "measurementHistory ?an1 = measurementHistory an @ [call_entry c]"
    using short
    by (simp add: analyze_points_history Let_def maxHistoryLength_def call_entry_def call_distances_def)
  from Cons.prems h have "\<forall>c \<in> set cs. accepted c" "length (measurementHistory ?an1) + length cs \<le> 10"
    by simp_all
  from Cons.IH [OF this(1) b this(2)] e h step
  show ?case by (simp add: split_def)
qed

lemma ready_step:
  assumes "baseline_ready base an"
  shows "baseline_ready base (snd (analyze_call an c))"
proof (cases "accepted c")
  case False
  then show ?thesis by (simp add: analyze_call_not_accepted assms)
next
  case True
  from assms have len: "10 \<le> length (measurementHistory an)"
    by (simp add: baseline_ready_def)
  have grow: "10 \<le> length (measurementHistory (snd (analyze_call an c)))"
    by (rule analyze_call_history_grows [OF len])
  show ?thesis
  proof (cases "baselineMeasurements an")
    case None
    with assms have b: "entry_distances (measurementHistory an ! 5) = base"
      by (simp add: baseline_ready_def)
    have "baselineMeasurements (snd (analyze_call an c)) = Some base"
      by (simp add: analyze_call_accepted [OF True] analyze_points_baseline
          detect_capture [OF None len] b)
    with grow show ?thesis by (simp add: baseline_ready_def)
  next
    case (Some b0)
    with assms have "b0 = base" by (simp add: baseline_ready_def)
    with Some analyze_call_keeps_baseline [of an base c] grow
    show ?thesis by (simp add: baseline_ready_def)
  qed
qed

lemma ready_result:
  assumes "baseline_ready base an" and "accepted c"
  shows "\<exists>res. fst (analyze_call an c) = Some res
           \<and> expression res = compareToBaseline (call_distances c) base
           \<and> baselineMeasurements (snd (analyze_call an c)) = Some base"
proof -
  from assms(1) have len: "10 \<le> length (measurementHistory an)"
    by (simp add: baseline_ready_def)
  have det: "detectExpressionChanges an (call_distances c)
               = (compareToBaseline (call_distances c) base,
                  an\<lparr>baselineMeasurements := Some base\<rparr>)"
  proof (cases "baselineMeasurements an")
    case None
    with assms(1) have "entry_distances (measurementHistory an ! 5) = base"
      by (simp add: baseline_ready_def)
    with detect_capture [OF None len] show ?thesis by simp
  next
    case (Some b0)
    with assms(1) have b0: "baselineMeasurements an = Some base" by (simp add: baseline_ready_def)
    from len have "5 \<le> length (measurementHistory an)" by simp
    from detect_with_baseline [OF b0 this] b0 show ?thesis by simp
  qed
  then show ?thesis
    by (simp add: analyze_call_accepted [OF assms(2)] analyze_points_expression
        analyze_points_baseline call_distances_def)
qed

lemma ready_session:
  "baseline_ready base an \<Longrightarrow> baseline_ready base (snd (analyzeAll an cs))"
proof (induction cs arbitrary: an)
  case Nil
  then show ?case by simp
next
  case (Cons c cs)
  from ready_step [OF Cons.prems, of c]
  have "baseline_ready base (snd (analyzeAll (snd (analyze_call an c)) cs))"
    by (rule Cons.IH)
  then show ?case by (simp add: split_def)
qed

lemma ready_after_ten:
  assumes "length cs = 10" and "\<forall>c \<in> set cs. accepted c"
  shows "baseline_ready (call_distances (cs ! 5)) (snd (analyzeAll FacialAnalyzer_new cs))"
proof -
  from warmup [OF assms(2), of FacialAnalyzer_new] assms(1)
  have "baselineMeasurements (snd (analyzeAll FacialAnalyzer_new cs)) = None"
    and "measurementHistory (snd (analyzeAll FacialAnalyzer_new cs)) = map call_entry cs"
    by (simp_all add: FacialAnalyzer_new_def)
  with assms(1) show ?thesis
    by (simp add: baseline_ready_def call_entry_def)
qed

lemma last_analyzeAll_snoc:
  "last (fst (analyzeAll an (cs @ [c]))) = fst (analyze_call (snd (analyzeAll an cs)) c)"
  by (simp add: analyzeAll_append split_def)

lemma snd_analyzeAll_snoc:
  "snd (analyzeAll an (cs @ [c])) = snd (analyze_call (snd (analyzeAll an cs)) c)"
  by (simp add: analyzeAll_append split_def)

text \<open>
  Claim C3, amended. On a new analyzer, none of the first ten accepted calls reports a
  change, whatever it measures: during the first five the history is shorter than 5, during
  the next five no baseline exists. This holds for the session cut after any number \<open>n\<close> of
  calls, so for a session of four frames too. From the first accepted call after those ten
  on, the baseline is the measurement set of the sixth call (history position 5): that call
  captures it before comparing, and no later call replaces it; \<^verbatim>\<open>resetBaseline\<close> returns
  the analyzer to its initial state. Such a call \<open>c\<close> (after any calls \<open>mid\<close>, before any
  calls \<open>later\<close>) reports \<open>hasChange\<close> exactly when some measurement present in both the
  current and the baseline set, with a baseline value other than 0, differs from that value
  by more than 10 percent in absolute value, and each such measurement is listed with its
  current value, baseline value, percent change and direction. A measurement whose baseline
  value is 0 is skipped by the truthiness test of the source. The witness runs the numbers
  of the claim: inter-eye distance 10 in ten calls, then 12, gives percent change 20 and
  direction increase.
\<close>

theorem baseline_warmup_scenario:
  assumes "length cs = 10" and "\<forall>c \<in> set cs. accepted c" and "accepted c"
  shows "(\<forall>r \<in> set (fst (analyzeAll FacialAnalyzer_new (take n cs))).
            \<exists>res. r = Some res \<and> \<not> hasChange (expression res))
       \<and> baselineMeasurements (snd (analyzeAll FacialAnalyzer_new (cs @ mid @ [c] @ later)))
           = Some (call_distances (cs ! 5))
       \<and> (\<exists>res. last (fst (analyzeAll FacialAnalyzer_new (cs @ mid @ [c]))) = Some res
            \<and> (hasChange (expression res) \<longleftrightarrow>
                 (\<exists>k v b. map_of (call_distances c) k = Some v
                          \<and> map_of (call_distances (cs ! 5)) k = Some b
                          \<and> b \<noteq> 0 \<and> 10 < \<bar>(v - b) / b * 100\<bar>))
            \<and> (\<forall>k v b. map_of (call_distances c) k = Some v
                        \<and> map_of (call_distances (cs ! 5)) k = Some b
                        \<and> b \<noteq> 0 \<and> 10 < \<bar>(v - b) / b * 100\<bar> \<longrightarrow>
                  map_of (changes (expression res)) k =
                    Some \<lparr>current = v, baseline = b, percentChange = (v - b) / b * 100,
                          direction = (if (v - b) / b * 100 > 0 then ''increase'' else ''decrease'')\<rparr>))
       \<and> resetBaseline an = FacialAnalyzer_new"
proof -
  let ?base = "call_distances (cs ! 5)"
  let ?an = "snd (analyzeAll FacialAnalyzer_new (cs @ mid))"
  have "\<forall>c \<in> set (take n cs). accepted c"
    using assms(2) by (auto dest: in_set_takeD)
  from warmup [OF this, of FacialAnalyzer_new] assms(1)
  have first: "\<forall>r \<in> set (fst (analyzeAll FacialAnalyzer_new (take n cs))).
                 \<exists>res. r = Some res \<and> \<not> hasChange (expression res)"
    by (fastforce simp: FacialAnalyzer_new_def)
  have "baseline_ready ?base (snd (analyzeAll FacialAnalyzer_new cs))"
    by (rule ready_after_ten [OF assms(1,2)])
  then have ready: "baseline_ready ?base ?an"
    by (simp add: analyzeAll_append ready_session)
  from ready_result [OF ready assms(3)] obtain res where
    res: "fst (analyze_call ?an c) = Some res"
      "expression res = compareToBaseline (call_distances c) ?base"
      "baselineMeasurements (snd (analyze_call ?an c)) = Some ?base"
    by blast
  have l: "last (fst (analyzeAll FacialAnalyzer_new (cs @ mid @ [c]))) = Some res"
    using res(1) last_analyzeAll_snoc [of FacialAnalyzer_new "cs @ mid" c] by simp
  have "snd (analyzeAll FacialAnalyzer_new (cs @ mid @ [c])) = snd (analyze_call ?an c)"
    using snd_analyzeAll_snoc [of FacialAnalyzer_new "cs @ mid" c] by simp
  with res(3) have "baselineMeasurements (snd (analyzeAll FacialAnalyzer_new (cs @ mid @ [c]))) = Some ?base"
    by simp
  from analyzeAll_keeps_baseline [OF this, of later]
  have kept: "baselineMeasurements (snd (analyzeAll FacialAnalyzer_new (cs @ mid @ [c] @ later))) = Some ?base"
    using analyzeAll_append [of FacialAnalyzer_new "cs @ mid @ [c]" later] by simp
  have iff: "hasChange (expression res) \<longleftrightarrow>
                 (\<exists>k v b. map_of (call_distances c) k = Some v
                          \<and> map_of ?base k = Some b
                          \<and> b \<noteq> 0 \<and> 10 < \<bar>(v - b) / b * 100\<bar>)"
    unfolding res(2) call_distances_def [of c] by (rule compareToBaseline_hasChange)
  have ch: "\<forall>k v b. map_of (call_distances c) k = Some v
                        \<and> map_of ?base k = Some b
                        \<and> b \<noteq> 0 \<and> 10 < \<bar>(v - b) / b * 100\<bar> \<longrightarrow>
                  map_of (changes (expression res)) k =
                    Some \<lparr>current = v, baseline = b, percentChange = (v - b) / b * 100,
                          direction = (if (v - b) / b * 100 > 0 then ''increase'' else ''decrease'')\<rparr>"
    unfolding res(2) call_distances_def [of c] using compareToBaseline_changes by blast
  have reset: "resetBaseline an = FacialAnalyzer_new"
    by (simp add: resetBaseline_def FacialAnalyzer_new_def)
  from first kept l iff ch reset show ?thesis by blast
qed

lemma frame_eyes_facts:
  "length (frame_eyes w) = 468"
  "landmark (frame_eyes w) 33 = Some (0, 0, 0)"
  "landmark (frame_eyes w) 263 = Some (w, 0, 0)"
  by (simp_all add: frame_eyes_def landmark_def)

lemma frame_eyes_distance:
  "0 \<le> w \<Longrightarrow> map_of (computeDistances (frame_eyes w)) ''EYE_TO_EYE'' = Some w"
  using eye_to_eye_lookup [OF frame_eyes_facts(2,3), of w]
  by (simp add: distance_def c0_def c1_def c2_def)




theorem baseline_warmup_scenario_witness:
  "length (replicate 10 (0::nat, Some (frame_eyes 10), None :: landmarks option)) = 10
   \<and> accepted (0, Some (frame_eyes 10), None)
   \<and> accepted (0, Some (frame_eyes 12), None)
   \<and> map_of (call_distances (0, Some (frame_eyes 10), None)) ''EYE_TO_EYE'' = Some 10
   \<and> map_of (call_distances (0, Some (frame_eyes 12), None)) ''EYE_TO_EYE'' = Some 12
   \<and> map (map_option (\<lambda>res. hasChange (expression res)))
        (fst (analyzeAll FacialAnalyzer_new (replicate 4 (0, Some (frame_eyes 10), None))))
       = replicate 4 (Some False)
   \<and> baselineMeasurements
        (snd (analyzeAll FacialAnalyzer_new
               (replicate 10 (0, Some (frame_eyes 10), None) @ [(0, Some (frame_eyes 12), None)])))
       = Some (call_distances (0, Some (frame_eyes 10), None))
   \<and> (\<exists>res. last (fst (analyzeAll FacialAnalyzer_new
                 (replicate 10 (0, Some (frame_eyes 10), None) @ [(0, Some (frame_eyes 12), None)])))
               = Some res
          \<and> hasChange (expression res)
          \<and> map_of (changes (expression res)) ''EYE_TO_EYE''
              = Some \<lparr>current = 12, baseline = 10, percentChange = 20, direction = ''increase''\<rparr>)"
proof -
  define c10 :: analyze_call where "c10 = (0, Some (frame_eyes 10), None)"
  define c12 :: analyze_call where "c12 = (0, Some (frame_eyes 12), None)"
  define cs where "cs = replicate 10 c10"
  have len: "length cs = 10" by (simp add: cs_def)
  have a10: "accepted c10" and a12: "accepted c12"
    by (simp_all add: c10_def c12_def frame_eyes_facts)
  have all: "\<forall>c \<in> set cs. accepted c"
    using a10 by (simp add: cs_def)
  have d10: "map_of (call_distances c10) ''EYE_TO_EYE'' = Some 10"
    and d12: "map_of (call_distances c12) ''EYE_TO_EYE'' = Some 12"
    by (simp_all add: c10_def c12_def call_distances_def frame_eyes_distance)
  have sixth: "cs ! 5 = c10" by (simp add: cs_def)
  note T = baseline_warmup_scenario [OF len all a12, of 4 "[]" "[]" FacialAnalyzer_new]
  define rs where "rs = fst (analyzeAll FacialAnalyzer_new (replicate 4 c10))"
  have four: "take 4 cs = replicate 4 c10" by (simp add: cs_def)
  have "\<forall>c \<in> set (replicate 4 c10). accepted c" using a10 by simp
  from analyzeAll_fifo [OF this, of FacialAnalyzer_new]
  have lr: "length rs = 4" by (simp add: rs_def FacialAnalyzer_new_def maxHistoryLength_def)
  from T have "\<forall>r \<in> set rs. \<exists>res. r = Some res \<and> \<not> hasChange (expression res)"
    unfolding four rs_def by (elim conjE)
  then have "\<forall>y \<in> set (map (map_option (\<lambda>res. hasChange (expression res))) rs). y = Some False"
    by auto
  from replicate_length_same [OF this] lr
  have quiet: "map (map_option (\<lambda>res. hasChange (expression res))) rs = replicate 4 (Some False)"
    by simp
  from T have b: "baselineMeasurements (snd (analyzeAll FacialAnalyzer_new (cs @ [c12])))
          = Some (call_distances c10)"
    by (simp only: sixth append_Nil append_Nil2)
  from T obtain res where
    l: "last (fst (analyzeAll FacialAnalyzer_new (cs @ [c12]))) = Some res"
    and iff: "hasChange (expression res) \<longleftrightarrow>
                 (\<exists>k v b. map_of (call_distances c12) k = Some v
                          \<and> map_of (call_distances c10) k = Some b
                          \<and> b \<noteq> 0 \<and> 10 < \<bar>(v - b) / b * 100\<bar>)"
    and ch: "\<forall>k v b. map_of (call_distances c12) k = Some v
                        \<and> map_of (call_distances c10) k = Some b
                        \<and> b \<noteq> 0 \<and> 10 < \<bar>(v - b) / b * 100\<bar> \<longrightarrow>
                  map_of (changes (expression res)) k =
                    Some \<lparr>current = v, baseline = b, percentChange = (v - b) / b * 100,
                          direction = (if (v - b) / b * 100 > 0 then ''increase'' else ''decrease'')\<rparr>"
    unfolding sixth append_Nil by (elim conjE exE)
  have big: "(10::real) \<noteq> 0 \<and> 10 < \<bar>((12::real) - 10) / 10 * 100\<bar>" by simp
  have hc: "hasChange (expression res)"
    unfolding iff using d10 d12 big by (intro exI [of _ "''EYE_TO_EYE''"] exI [of _ 12] exI [of _ 10]) simp
  from ch [rule_format, of "''EYE_TO_EYE''" 12 10] d10 d12 big
  have c: "map_of (changes (expression res)) ''EYE_TO_EYE''
              = Some \<lparr>current = 12, baseline = 10, percentChange = 20, direction = ''increase''\<rparr>"
    by simp
  have ex: "\<exists>res. last (fst (analyzeAll FacialAnalyzer_new (cs @ [c12]))) = Some res
          \<and> hasChange (expression res)
          \<and> map_of (changes (expression res)) ''EYE_TO_EYE''
              = Some \<lparr>current = 12, baseline = 10, percentChange = 20, direction = ''increase''\<rparr>"
    using l hc c by (intro exI [of _ res]) simp
  from len a10 a12 d10 d12 quiet b ex show ?thesis
    unfolding cs_def c10_def c12_def rs_def by (intro conjI)
qed

lemma frame_eyes_eye_heights:
  "computeEyeHeight (frame_eyes w) side = 0"
  by (simp add: computeEyeHeight_def Let_def FACIAL_REGIONS_LEFT_EYE_def FACIAL_REGIONS_RIGHT_EYE_def
      frame_eyes_def landmark_def eyeHeight_step_def)

lemma frame_mouth_open_eye_heights:
  "computeEyeHeight frame_mouth_open side = 0"
  by (simp add: computeEyeHeight_def Let_def FACIAL_REGIONS_LEFT_EYE_def FACIAL_REGIONS_RIGHT_EYE_def
      frame_mouth_open_def landmark_def eyeHeight_step_def)

lemma computeDistances_frame_eyes_10:
  "computeDistances (frame_eyes 10) =
     [(''EYE_TO_EYE'', 10), (''LEFT_EYE_HEIGHT'', 0), (''RIGHT_EYE_HEIGHT'', 0), (''MOUTH_OPENNESS'', 0)]"
  unfolding computeDistances_def frame_eyes_eye_heights
  by (simp add: MEASUREMENT_PAIRS_def computeDistances_step_def computeMouthOpenness_def FACIAL_REGIONS_MOUTH_center_top_def
      FACIAL_REGIONS_MOUTH_center_bottom_def frame_eyes_def landmark_def distance_def
      c0_def c1_def c2_def)

lemma computeDistances_frame_mouth_open:
  "computeDistances frame_mouth_open =
     [(''EYE_TO_EYE'', 10), (''MOUTH_HEIGHT'', 5), (''LEFT_EYE_HEIGHT'', 0),
      (''RIGHT_EYE_HEIGHT'', 0), (''MOUTH_OPENNESS'', 5)]"
  unfolding computeDistances_def frame_mouth_open_eye_heights
  by (simp add: MEASUREMENT_PAIRS_def computeDistances_step_def computeMouthOpenness_def FACIAL_REGIONS_MOUTH_center_top_def
      FACIAL_REGIONS_MOUTH_center_bottom_def frame_mouth_open_def landmark_def distance_def
      c0_def c1_def c2_def)

lemma compare_mouth_open:
  "compareToBaseline (computeDistances frame_mouth_open) (computeDistances (frame_eyes 10))
     = \<lparr>hasChange = False, changes = []\<rparr>"
  by (simp add: computeDistances_frame_eyes_10 computeDistances_frame_mouth_open
      compareToBaseline_def compare_step_def)

text \<open>
  The claim as stated counts every measurement present in both sets. After ten calls with
  mouth openness 0, a call with mouth openness 5 has that measurement in both sets, its
  percent change by the formula of the claim is infinite, and the source reports no change.
\<close>

theorem zero_baseline_is_skipped:
  "map_of (call_distances (0, Some (frame_eyes 10), None)) ''MOUTH_OPENNESS'' = Some 0
   \<and> map_of (call_distances (0, Some frame_mouth_open, None)) ''MOUTH_OPENNESS'' = Some 5
   \<and> exceeds_ten (claimed_percent_change 5 0)
   \<and> baselineMeasurements
        (snd (analyzeAll FacialAnalyzer_new
               (replicate 10 (0, Some (frame_eyes 10), None) @ [(0, Some frame_mouth_open, None)])))
       = Some (call_distances (0, Some (frame_eyes 10), None))
   \<and> map_option (hasChange \<circ> expression)
        (last (fst (analyzeAll FacialAnalyzer_new
                 (replicate 10 (0, Some (frame_eyes 10), None) @ [(0, Some frame_mouth_open, None)]))))
       = Some False"
proof -
  define c10 :: analyze_call where "c10 = (0, Some (frame_eyes 10), None)"
  define c :: analyze_call where "c = (0, Some frame_mouth_open, None)"
  define cs where "cs = replicate 10 c10"
  have len: "length cs = 10" by (simp add: cs_def)
  have a10: "accepted c10" by (simp add: c10_def frame_eyes_facts)
  have ac: "accepted c" by (simp add: c_def frame_mouth_open_def)
  have all: "\<forall>x \<in> set cs. accepted x" using a10 by (simp add: cs_def)
  have sixth: "cs ! 5 = c10" by (simp add: cs_def)
  have d10: "call_distances c10 = computeDistances (frame_eyes 10)"
    and dc: "call_distances c = computeDistances frame_mouth_open"
    by (simp_all add: call_distances_def c10_def c_def)
  have m0: "map_of (call_distances c10) ''MOUTH_OPENNESS'' = Some 0"
    by (simp add: d10 computeDistances_frame_eyes_10)
  have m5: "map_of (call_distances c) ''MOUTH_OPENNESS'' = Some 5"
    by (simp add: dc computeDistances_frame_mouth_open)
  have inf: "exceeds_ten (claimed_percent_change 5 0)"
    by (simp add: claimed_percent_change_def)
  have "baseline_ready (call_distances c10) (snd (analyzeAll FacialAnalyzer_new cs))"
    using ready_after_ten [OF len all] by (simp only: sixth)
  from ready_result [OF this ac] obtain res where
    r: "fst (analyze_call (snd (analyzeAll FacialAnalyzer_new cs)) c) = Some res"
    and e: "expression res = compareToBaseline (call_distances c) (call_distances c10)"
    and b: "baselineMeasurements (snd (analyze_call (snd (analyzeAll FacialAnalyzer_new cs)) c))
              = Some (call_distances c10)"
    by blast
  from e have "hasChange (expression res) = False"
    by (simp add: d10 dc compare_mouth_open)
  with r have quiet: "map_option (hasChange \<circ> expression)
        (last (fst (analyzeAll FacialAnalyzer_new (cs @ [c])))) = Some False"
    by (simp add: last_analyzeAll_snoc)
  from b have kept: "baselineMeasurements (snd (analyzeAll FacialAnalyzer_new (cs @ [c])))
       = Some (call_distances c10)"
    by (simp add: snd_analyzeAll_snoc)
  from m0 m5 inf kept quiet show ?thesis
    unfolding cs_def c10_def c_def by (intro conjI)
qed


section \<open>A frontal frame, evaluated\<close>

lemma computeFaceAxes_front:
  "computeFaceAxes (Vector3 0 0 0) (Vector3 1 0 0) (Vector3 0 0 0) (Vector3 0 1 0)
     = \<lparr>axes_right = Vector3 1 0 0, axes_up = Vector3 0 1 0, axes_forward = Vector3 0 0 1\<rparr>"
  by (simp add: computeFaceAxes_def Vector3_normalize_def Vector3_subtract_def Vector3_cross_def
      Vector3_length_def Let_def)

lemma extractEulerAngles_identity:
  "extractEulerAngles [[1, 0, 0], [0, 1, 0], [0, 0, 1]] = \<lparr>yaw = 0, pitch = 0, roll = 0\<rparr>"
  by (simp add: extractEulerAngles_def atan2_def Let_def)

lemma frame_front_anchors:
  "landmark frame_front POSE_ANCHORS_LEFT_EYE = Some (0, 0, 0)"
  "landmark frame_front POSE_ANCHORS_RIGHT_EYE = Some (1, 0, 0)"
  "landmark frame_front POSE_ANCHORS_NOSE_TIP = Some (0, 0, 0)"
  "landmark frame_front POSE_ANCHORS_CHIN = Some (0, 1, 0)"
  "landmark frame_front POSE_ANCHORS_LEFT_EYE_INNER = Some (0, 0, 0)"
  "landmark frame_front POSE_ANCHORS_RIGHT_EYE_INNER = Some (0, 0, 0)"
  by (simp_all add: frame_front_def landmark_def POSE_ANCHORS_LEFT_EYE_def
      POSE_ANCHORS_RIGHT_EYE_def POSE_ANCHORS_NOSE_TIP_def POSE_ANCHORS_CHIN_def
      POSE_ANCHORS_LEFT_EYE_INNER_def POSE_ANCHORS_RIGHT_EYE_INNER_def)

lemma first_front_frame:
  "\<exists>r. estimatePose FacePoseEstimator_new (Some frame_front) = Inr (Some r, estimator_after_front)
        \<and> rotationMatrix r = identity3"
proof -
  have "snd (estimatePose_anchored FacePoseEstimator_new (Vector3 0 0 0) (Vector3 1 0 0)
               (Vector3 0 0 0) (Vector3 0 1 0) (Vector3 0 0 0) (Vector3 0 0 0))
          = estimator_after_front"
    by (simp add: estimatePose_anchored_def computeFaceAxes_front buildRotationMatrix_def
        extractEulerAngles_identity FacePoseEstimator_new_def ExponentialSmoother_new_def
        ExponentialSmoother_smooth_def maxHistoryLength_def estimator_after_front_def Let_def)
  moreover have "rotationMatrix (fst (estimatePose_anchored FacePoseEstimator_new (Vector3 0 0 0)
               (Vector3 1 0 0) (Vector3 0 0 0) (Vector3 0 1 0) (Vector3 0 0 0) (Vector3 0 0 0)))
          = identity3"
    by (simp add: estimatePose_anchored_def computeFaceAxes_front buildRotationMatrix_def
        identity3_def Let_def split_def)
  moreover have "468 \<le> length frame_front" by (simp add: frame_front_def)
  ultimately show ?thesis
    by (simp add: estimatePose_def frame_front_anchors split_def)
qed


section \<open>Stability metrics\<close>

lemma foldl_add_sum_list: "foldl (\<lambda>a b. a + b) s xs = s + sum_list (xs :: real list)"
  by (induction xs arbitrary: s) simp_all

lemma foldl_squares_sum_list:
  "foldl (\<lambda>acc val. acc + (val - m)\<^sup>2) s xs = s + sum_list (map (\<lambda>a. (a - m)\<^sup>2) (xs :: real list))"
  by (induction xs arbitrary: s) simp_all

lemma computeVariance_std_dev: "computeVariance xs = std_dev xs"
  by (simp add: computeVariance_def std_dev_def mean_def Let_def foldl_add_sum_list
      foldl_squares_sum_list)

lemma std_dev_constant:
  assumes "\<forall>a \<in> set xs. a = c" and "xs \<noteq> []"
  shows "std_dev xs = 0"
proof -
  from assms(1) have xs: "xs = replicate (length xs) c"
    by (simp add: replicate_length_same)
  from assms(2) have n: "real (length xs) \<noteq> 0" by simp
  have "sum_list xs = real (length xs) * c"
    by (subst xs) (simp add: sum_list_replicate)
  with n have m: "mean xs = c" by (simp add: mean_def)
  have "map (\<lambda>a. (a - c)\<^sup>2) xs = replicate (length xs) 0"
    by (subst xs) simp
  then show ?thesis by (simp add: std_dev_def m sum_list_replicate)
qed

lemma std_dev_alternating: "std_dev (concat (replicate 15 [- 20, 20])) = 20"
proof -
  have c: "concat (replicate 15 [- 20, 20 :: real])
      = [- 20, 20, - 20, 20, - 20, 20, - 20, 20, - 20, 20, - 20, 20, - 20, 20, - 20, 20,
         - 20, 20, - 20, 20, - 20, 20, - 20, 20, - 20, 20, - 20, 20, - 20, 20]"
    by (simp add: numeral_eq_Suc)
  have m: "mean (concat (replicate 15 [- 20, 20])) = 0"
    unfolding c by (simp add: mean_def)
  have "sum_list (map (\<lambda>a. (a - 0)\<^sup>2) (concat (replicate 15 [- 20, 20 :: real]))) / 30 = 400"
    unfolding c by simp
  moreover have "length (concat (replicate 15 [- 20, 20 :: real])) = 30"
    unfolding c by simp
  ultimately have "std_dev (concat (replicate 15 [- 20, 20])) = sqrt 400"
    by (simp only: std_dev_def m) simp
  then show ?thesis by simp
qed

text \<open>
  Claim C7, amended. Whenever the pose history holds at least 5 entries, each per-axis
  stability value is \<open>min (std / 10) 1\<close> for the standard deviation \<open>std\<close> of that axis
  over the history, and the overall value is \<open>min (m / 10) 1\<close> for the mean \<open>m\<close> of the
  three standard deviations. Hence a history of that length whose yaw values are all the
  same has yaw stability 0, and a history of 30 entries whose yaw alternates between -20
  and 20 has yaw stability 1.
\<close>

theorem stability_metrics_formula:
  assumes "5 \<le> length (poseHistory est)"
  shows "stab_yaw (computeStability est) = min (std_dev (map yaw (poseHistory est)) / 10) 1
       \<and> stab_pitch (computeStability est) = min (std_dev (map pitch (poseHistory est)) / 10) 1
       \<and> stab_roll (computeStability est) = min (std_dev (map roll (poseHistory est)) / 10) 1
       \<and> stab_overall (computeStability est)
           = min ((std_dev (map yaw (poseHistory est)) + std_dev (map pitch (poseHistory est))
                   + std_dev (map roll (poseHistory est))) / 3 / 10) 1
       \<and> ((\<forall>a \<in> set (poseHistory est). yaw a = y0) \<longrightarrow> stab_yaw (computeStability est) = 0)
       \<and> (map yaw (poseHistory est) = concat (replicate 15 [- 20, 20]) \<longrightarrow>
            stab_yaw (computeStability est) = 1)"
proof -
  from assms have long: "\<not> length (poseHistory est) < 5" by simp
  have y: "stab_yaw (computeStability est) = min (std_dev (map yaw (poseHistory est)) / 10) 1"
    and p: "stab_pitch (computeStability est) = min (std_dev (map pitch (poseHistory est)) / 10) 1"
    and r: "stab_roll (computeStability est) = min (std_dev (map roll (poseHistory est)) / 10) 1"
    and ov: "stab_overall (computeStability est)
           = min ((std_dev (map yaw (poseHistory est)) + std_dev (map pitch (poseHistory est))
                   + std_dev (map roll (poseHistory est))) / 3 / 10) 1"
    using long by (simp_all add: computeStability_def Let_def normalize_std_def computeVariance_std_dev)
  have same: "stab_yaw (computeStability est) = 0" if "\<forall>a \<in> set (poseHistory est). yaw a = y0"
  proof -
    from assms have "map yaw (poseHistory est) \<noteq> []" by auto
    moreover from that have "\<forall>a \<in> set (map yaw (poseHistory est)). a = y0" by simp
    ultimately have "std_dev (map yaw (poseHistory est)) = 0" by (rule std_dev_constant [rotated])
    with y show ?thesis by simp
  qed
  have alt: "stab_yaw (computeStability est) = 1"
    if "map yaw (poseHistory est) = concat (replicate 15 [- 20, 20])"
    using y by (simp add: that std_dev_alternating)
  from y p r ov same alt show ?thesis by blast
qed

theorem stability_metrics_formula_witness:
  "5 \<le> length (poseHistory (FacePoseEstimator_new\<lparr>poseHistory := alternating_history\<rparr>))
   \<and> stab_yaw (computeStability (FacePoseEstimator_new\<lparr>poseHistory := alternating_history\<rparr>)) = 1
   \<and> 5 \<le> length (poseHistory (FacePoseEstimator_new\<lparr>poseHistory := constant_history\<rparr>))
   \<and> stab_yaw (computeStability (FacePoseEstimator_new\<lparr>poseHistory := constant_history\<rparr>)) = 0"
proof -
  define E where "E = FacePoseEstimator_new\<lparr>poseHistory := alternating_history\<rparr>"
  define F where "F = FacePoseEstimator_new\<lparr>poseHistory := constant_history\<rparr>"
  have h: "poseHistory E = alternating_history" by (simp add: E_def)
  have len: "5 \<le> length (poseHistory E)"
    by (simp add: h alternating_history_def length_concat sum_list_replicate)
  have ys: "map yaw (poseHistory E) = concat (replicate 15 [- 20, 20])"
    by (simp add: h alternating_history_def map_concat)
  from stability_metrics_formula [OF len, of 0] ys
  have a: "stab_yaw (computeStability E) = 1" by simp
  have g: "poseHistory F = constant_history" by (simp add: F_def)
  have len2: "5 \<le> length (poseHistory F)"
    by (simp add: g constant_history_def)
  have same: "\<forall>a \<in> set (poseHistory F). yaw a = 0"
    by (simp add: g constant_history_def)
  from stability_metrics_formula [OF len2, of 0] same
  have b: "stab_yaw (computeStability F) = 0" by simp
  from len a len2 b show ?thesis unfolding E_def F_def by (intro conjI)
qed

text \<open>
  The claim as stated, without the bound on the length, fails after the first frame: the
  history holds one entry, its standard deviation is 0, and the yaw stability is 1.
\<close>

theorem stability_formula_fails_on_short_history:
  "stab_yaw (computeStability estimator_after_front) = 1
   \<and> min (std_dev (map yaw (poseHistory estimator_after_front)) / 10) 1 = 0"
  by (simp add: computeStability_def std_dev_def mean_def estimator_after_front_def)

section \<open>Normalization under scaling\<close>

lemma landmark_scale_frame:
  "landmark (scale_frame k lms) i = map_option (scale_point k) (landmark lms i)"
  by (simp add: landmark_def scale_frame_def)

lemma scale_point_coords [simp]:
  "c0 (scale_point k p) = k * c0 p" "c1 (scale_point k p) = k * c1 p" "c2 (scale_point k p) = k * c2 p"
  by (simp_all add: scale_point_def c0_def c1_def c2_def)

lemma sqrt_scaled_squares:
  assumes "0 \<le> k"
  shows "sqrt ((k * a)\<^sup>2 + (k * b)\<^sup>2 + (k * c)\<^sup>2) = k * sqrt (a\<^sup>2 + b\<^sup>2 + c\<^sup>2)"
proof -
  have "(k * a)\<^sup>2 + (k * b)\<^sup>2 + (k * c)\<^sup>2 = k\<^sup>2 * (a\<^sup>2 + b\<^sup>2 + c\<^sup>2)"
    by (simp add: power_mult_distrib distrib_left)
  with assms show ?thesis by (simp add: real_sqrt_mult)
qed

lemma distance_scale:
  "0 \<le> k \<Longrightarrow> distance (scale_point k p) (scale_point k q) = k * distance p q"
  using sqrt_scaled_squares [of k "c0 q - c0 p" "c1 q - c1 p" "c2 q - c2 p"]
  by (simp add: distance_def Let_def power2_eq_square right_diff_distrib)

lemma computeMouthOpenness_scale:
  assumes "0 \<le> k"
  shows "computeMouthOpenness (scale_frame k lms) = k * computeMouthOpenness lms"
proof (cases "landmark lms FACIAL_REGIONS_MOUTH_center_top")
  case None
  then show ?thesis by (simp add: computeMouthOpenness_def landmark_scale_frame)
next
  case (Some t)
  show ?thesis
  proof (cases "landmark lms FACIAL_REGIONS_MOUTH_center_bottom")
    case None
    with Some show ?thesis by (simp add: computeMouthOpenness_def landmark_scale_frame)
  next
    case (Some b)
    with \<open>landmark lms FACIAL_REGIONS_MOUTH_center_top = Some t\<close>
      sqrt_scaled_squares [OF assms, of "c0 b - c0 t" "c1 b - c1 t" "c2 b - c2 t"]
    show ?thesis
      by (simp add: computeMouthOpenness_def landmark_scale_frame right_diff_distrib)
  qed
qed

lemma eyeHeight_step_scale:
  assumes "0 \<le> k"
  shows "eyeHeight_step (map_option (scale_point k) u) (map_option (scale_point k) l) (k * t, n)
           = (k * fst (eyeHeight_step u l (t, n)), snd (eyeHeight_step u l (t, n)))"
proof -
  have "\<bar>k * a - k * b\<bar> = k * \<bar>a - b\<bar>" for a b :: real
    using assms by (simp add: abs_mult flip: right_diff_distrib)
  then show ?thesis
    by (cases u; cases l) (simp_all add: eyeHeight_step_def distrib_left)
qed

lemma fold_eyeHeight_inner_scale:
  assumes "0 \<le> k"
  shows "fold (eyeHeight_step (map_option (scale_point k) u)) (map (map_option (scale_point k)) ls)
           (k * t, n)
         = (k * fst (fold (eyeHeight_step u) ls (t, n)), snd (fold (eyeHeight_step u) ls (t, n)))"
proof (induction ls arbitrary: t n)
  case Nil
  then show ?case by simp
next
  case (Cons l ls)
  show ?case
    by (simp add: eyeHeight_step_scale [OF assms] Cons.IH)
qed

lemma fold_eyeHeight_outer_scale:
  assumes "0 \<le> k"
  shows "fold (\<lambda>upper. fold (eyeHeight_step upper) (map (map_option (scale_point k)) ls))
           (map (map_option (scale_point k)) us) (k * t, n)
         = (k * fst (fold (\<lambda>upper. fold (eyeHeight_step upper) ls) us (t, n)),
            snd (fold (\<lambda>upper. fold (eyeHeight_step upper) ls) us (t, n)))"
proof (induction us arbitrary: t n)
  case Nil
  then show ?case by simp
next
  case (Cons u us)
  show ?case
    by (simp add: fold_eyeHeight_inner_scale [OF assms] Cons.IH)
qed

lemma computeEyeHeight_scale:
  assumes "0 \<le> k"
  shows "computeEyeHeight (scale_frame k lms) side = k * computeEyeHeight lms side"
proof -
  define region where
    "region = (if side = ''left'' then FACIAL_REGIONS_LEFT_EYE else FACIAL_REGIONS_RIGHT_EYE)"
  define us where "us = map (landmark lms) (eye_upper region)"
  define ls where "ls = map (landmark lms) (eye_lower region)"
  define acc where "acc = fold (\<lambda>upper. fold (eyeHeight_step upper) ls) us (0, 0)"
  have u: "map (landmark (scale_frame k lms)) (eye_upper region) = map (map_option (scale_point k)) us"
    and l: "map (landmark (scale_frame k lms)) (eye_lower region) = map (map_option (scale_point k)) ls"
    by (simp_all add: us_def ls_def landmark_scale_frame)
  have scaled: "fold (\<lambda>upper. fold (eyeHeight_step upper) (map (map_option (scale_point k)) ls))
                  (map (map_option (scale_point k)) us) (0, 0)
                = (k * fst acc, snd acc)"
    using fold_eyeHeight_outer_scale [OF assms, of ls us 0 0] by (simp add: acc_def)
  have a: "computeEyeHeight lms side = (if snd acc > 0 then fst acc / real (snd acc) else 0)"
    by (simp add: computeEyeHeight_def Let_def acc_def us_def ls_def region_def)
  have b: "computeEyeHeight (scale_frame k lms) side
             = (if snd acc > 0 then k * fst acc / real (snd acc) else 0)"
    unfolding computeEyeHeight_def Let_def region_def [symmetric] u l scaled by simp
  from a b show ?thesis by simp
qed

lemma update_map_values:
  "AList.update key (f v) (map (apsnd f) al) = map (apsnd f) (AList.update key v al)"
  by (induction al) auto

lemma computeDistances_step_scale:
  assumes "0 \<le> k"
  shows "computeDistances_step (scale_frame k lms) e (map (apsnd (\<lambda>v. k * v)) ds)
           = map (apsnd (\<lambda>v. k * v)) (computeDistances_step lms e ds)"
proof -
  obtain name i j where e: "e = (name, i, j)" by (cases e)
  show ?thesis
    by (cases "landmark lms i"; cases "landmark lms j")
       (simp_all add: e computeDistances_step_def landmark_scale_frame distance_scale [OF assms]
          update_map_values)
qed

lemma fold_computeDistances_step_scale:
  assumes "0 \<le> k"
  shows "fold (computeDistances_step (scale_frame k lms)) ps (map (apsnd (\<lambda>v. k * v)) ds)
           = map (apsnd (\<lambda>v. k * v)) (fold (computeDistances_step lms) ps ds)"
  by (induction ps arbitrary: ds) (simp_all add: computeDistances_step_scale [OF assms])

lemma computeDistances_scale:
  assumes "0 \<le> k"
  shows "computeDistances (scale_frame k lms) = map (apsnd (\<lambda>v. k * v)) (computeDistances lms)"
  using fold_computeDistances_step_scale [OF assms, of lms MEASUREMENT_PAIRS "[]"]
  by (simp add: computeDistances_def computeEyeHeight_scale [OF assms]
      computeMouthOpenness_scale [OF assms] update_map_values)

lemma map_of_scaled: "map_of (map (apsnd (\<lambda>v. k * v)) ds) key = map_option (\<lambda>v. k * v) (map_of ds key)"
  by (induction ds) auto

lemma distance_zero_iff: "distance p q = 0 \<longleftrightarrow> p = q"
proof -
  have "(c0 q - c0 p) * (c0 q - c0 p) + (c1 q - c1 p) * (c1 q - c1 p) + (c2 q - c2 p) * (c2 q - c2 p) = 0
          \<longleftrightarrow> c0 q = c0 p \<and> c1 q = c1 p \<and> c2 q = c2 p"
    using sum_power2_eq_zero_iff [of "c0 q - c0 p" "c1 q - c1 p"]
      sum_power2_eq_zero_iff [of "sqrt ((c0 q - c0 p)\<^sup>2 + (c1 q - c1 p)\<^sup>2)" "c2 q - c2 p"]
    by (auto simp: power2_eq_square [symmetric] add_nonneg_eq_0_iff)
  then show ?thesis
    by (cases p; cases q) (auto simp: distance_def Let_def c0_def c1_def c2_def)
qed

lemma fold_normalize_scaled:
  "k \<noteq> 0 \<Longrightarrow>
   fold (\<lambda>entry nd. AList.update (fst entry) (snd entry / (k * e)) nd) (map (apsnd (\<lambda>v. k * v)) ds) acc
     = fold (\<lambda>entry nd. AList.update (fst entry) (snd entry / (e :: real)) nd) ds acc"
  by (induction ds arbitrary: acc) simp_all

text \<open>
  Claim C5, amended. For every frame in which landmarks 33 and 263 are present and distinct,
  so that the inter-eye distance is present and not 0, and for every positive \<open>k\<close>, scaling
  every coordinate of every landmark by \<open>k\<close> leaves the normalized measurement set as it
  was, entry by entry and exactly: each raw measurement and the inter-eye distance both
  scale by \<open>k\<close>.
\<close>

theorem normalization_scale_invariant:
  assumes "0 < k" and "landmark lms 33 = Some p" and "landmark lms 263 = Some q" and "p \<noteq> q"
  shows "normalizeToFaceSize (computeDistances (scale_frame k lms))
           = normalizeToFaceSize (computeDistances lms)"
proof -
  let ?e = "distance p q"
  from assms(1) have k: "0 \<le> k" "k \<noteq> 0" by simp_all
  have e: "map_of (computeDistances lms) ''EYE_TO_EYE'' = Some ?e"
    by (rule eye_to_eye_lookup [OF assms(2,3)])
  from assms(4) have ne: "?e \<noteq> 0" by (simp add: distance_zero_iff)
  have "fold (\<lambda>entry nd. AList.update (fst entry) (snd entry / (k * ?e)) nd)
               (map (apsnd (\<lambda>v. k * v)) (computeDistances lms)) []
             = fold (\<lambda>entry nd. AList.update (fst entry) (snd entry / ?e) nd) (computeDistances lms) []"
    by (rule fold_normalize_scaled [OF k(2)])
  then show ?thesis
    using k(2) ne
    by (simp add: normalizeToFaceSize_def computeDistances_scale [OF k(1)] map_of_scaled e)
qed


lemma mouth_height_value:
  assumes "landmark lms 13 = Some p" and "landmark lms 14 = Some q"
  shows "map_of (computeDistances lms) ''MOUTH_HEIGHT'' = Some (distance p q)"
  using mouth_height_lookup [OF assms] by (simp add: computeDistances_def update_conv')

lemma map_of_fold_divide:
  "distinct (map fst ds) \<Longrightarrow>
   map_of (fold (\<lambda>entry nd. AList.update (fst entry) (snd entry / sc) nd) ds acc) key
     = (case map_of ds key of Some v \<Rightarrow> Some (v / (sc :: real)) | None \<Rightarrow> map_of acc key)"
proof (induction ds arbitrary: acc)
  case Nil
  then show ?case by simp
next
  case (Cons e ds)
  obtain k' v' where e: "e = (k', v')" by (cases e)
  with Cons.prems have d: "distinct (map fst ds)" and notin: "k' \<notin> fst ` set ds" by auto
  from notin have "map_of ds k' = None" by (simp add: map_of_eq_None_iff)
  then show ?case
    by (cases "map_of ds key") (auto simp: Cons.IH [OF d] e update_conv')
qed

lemma map_of_normalizeToFaceSize:
  "map_of (normalizeToFaceSize (computeDistances lms)) key
     = map_option
         (\<lambda>v. v / (case map_of (computeDistances lms) ''EYE_TO_EYE'' of
                      None \<Rightarrow> 1 | Some e \<Rightarrow> if e = 0 then 1 else e))
         (map_of (computeDistances lms) key)"
  unfolding normalizeToFaceSize_def Let_def map_of_fold_divide [OF distinct_computeDistances]
  by (cases "map_of (computeDistances lms) key") simp_all

lemma frame_eyes_closed_landmarks:
  "landmark frame_eyes_closed 33 = Some (0, 0, 0)"
  "landmark frame_eyes_closed 263 = Some (0, 0, 0)"
  "landmark frame_eyes_closed 13 = Some (0, 0, 0)"
  "landmark frame_eyes_closed 14 = Some (0, 3, 4)"
  by (simp_all add: frame_eyes_closed_def landmark_def)

lemma frame_eyes_closed_scaled:
  "landmark (scale_frame 2 frame_eyes_closed) 33 = Some (0, 0, 0)"
  "landmark (scale_frame 2 frame_eyes_closed) 263 = Some (0, 0, 0)"
  "landmark (scale_frame 2 frame_eyes_closed) 13 = Some (0, 0, 0)"
  "landmark (scale_frame 2 frame_eyes_closed) 14 = Some (0, 6, 8)"
  by (simp_all add: landmark_scale_frame frame_eyes_closed_landmarks scale_point_def c0_def c1_def c2_def)

text \<open>
  The claim as stated, for every frame, fails where the inter-eye distance is 0: the scale
  falls back to 1, the normalized values are the raw ones, and they double with the frame.
\<close>

theorem normalization_not_invariant_when_eyes_coincide:
  "map_of (normalizeToFaceSize (computeDistances frame_eyes_closed)) ''MOUTH_HEIGHT'' = Some 5
   \<and> map_of (normalizeToFaceSize (computeDistances (scale_frame 2 frame_eyes_closed))) ''MOUTH_HEIGHT''
       = Some 10"
proof -
  have d0: "distance (0, 0, 0) (0, 0, 0) = 0" and d5: "distance (0, 0, 0) (0, 3, 4) = 5"
    and d10: "distance (0, 0, 0) (0, 6, 8) = 10"
    by (simp_all add: distance_def c0_def c1_def c2_def)
  have "map_of (computeDistances frame_eyes_closed) ''EYE_TO_EYE'' = Some 0"
    using eye_to_eye_lookup [OF frame_eyes_closed_landmarks(1,2)] d0 by simp
  moreover have "map_of (computeDistances frame_eyes_closed) ''MOUTH_HEIGHT'' = Some 5"
    using mouth_height_value [OF frame_eyes_closed_landmarks(3,4)] d5 by simp
  moreover have "map_of (computeDistances (scale_frame 2 frame_eyes_closed)) ''EYE_TO_EYE'' = Some 0"
    using eye_to_eye_lookup [OF frame_eyes_closed_scaled(1,2)] d0 by simp
  moreover have "map_of (computeDistances (scale_frame 2 frame_eyes_closed)) ''MOUTH_HEIGHT'' = Some 10"
    using mouth_height_value [OF frame_eyes_closed_scaled(3,4)] d10 by simp
  ultimately show ?thesis by (simp add: map_of_normalizeToFaceSize)
qed

theorem normalization_scale_invariant_witness:
  "(0::real) < 2
   \<and> landmark frame_front 33 = Some (0, 0, 0) \<and> landmark frame_front 263 = Some (1, 0, 0)
   \<and> normalizeToFaceSize (computeDistances (scale_frame 2 frame_front))
       = normalizeToFaceSize (computeDistances frame_front)
   \<and> map_of (normalizeToFaceSize (computeDistances frame_front)) ''MOUTH_HEIGHT'' = Some 5"
proof -
  have a: "landmark frame_front 33 = Some (0, 0, 0)" and b: "landmark frame_front 263 = Some (1, 0, 0)"
    and c: "landmark frame_front 13 = Some (0, 0, 0)" and d: "landmark frame_front 14 = Some (0, 3, 4)"
    by (simp_all add: frame_front_def landmark_def)
  have k: "(0::real) < 2" by simp
  have ne: "((0, 0, 0) :: point) \<noteq> (1, 0, 0)" by simp
  have "map_of (computeDistances frame_front) ''EYE_TO_EYE'' = Some 1"
    using eye_to_eye_lookup [OF a b] by (simp add: distance_def c0_def c1_def c2_def)
  moreover have "map_of (computeDistances frame_front) ''MOUTH_HEIGHT'' = Some 5"
    using mouth_height_value [OF c d] by (simp add: distance_def c0_def c1_def c2_def)
  ultimately have v: "map_of (normalizeToFaceSize (computeDistances frame_front)) ''MOUTH_HEIGHT'' = Some 5"
    by (simp add: map_of_normalizeToFaceSize)
  from normalization_scale_invariant [OF k a b ne] k a b v show ?thesis by (intro conjI)
qed

section \<open>Symmetry\<close>

lemma foldl_heights: "foldl (\<lambda>acc p. acc + c1 p) s ps = s + sum_list (map c1 ps)"
  by (induction ps arbitrary: s) simp_all

lemma getRegionHeight_heights:
  "getRegionHeight lms is =
     (if map c1 (List.map_filter (landmark lms) is) = [] then 0
      else sum_list (map c1 (List.map_filter (landmark lms) is))
             / real (length (map c1 (List.map_filter (landmark lms) is))))"
  by (simp add: getRegionHeight_def Let_def foldl_heights)

lemma mirrored_heights:
  assumes "length ls = length rs"
    and "\<forall>pr \<in> set (zip ls rs). mirror_images m (landmark lms (fst pr)) (landmark lms (snd pr))"
  shows "map c1 (List.map_filter (landmark lms) ls) = map c1 (List.map_filter (landmark lms) rs)"
  using assms
proof (induction ls rs rule: list_induct2)
  case Nil
  then show ?case by simp
next
  case (Cons l ls r rs)
  from Cons.prems have here: "mirror_images m (landmark lms l) (landmark lms r)"
    and rest: "\<forall>pr \<in> set (zip ls rs). mirror_images m (landmark lms (fst pr)) (landmark lms (snd pr))"
    by simp_all
  from Cons.IH [OF rest] here show ?case
    by (cases "landmark lms l"; cases "landmark lms r") (simp_all add: map_filter_simps)
qed

lemma mirrored_width:
  assumes "mirror_images m (landmark lms i) (landmark lms i')"
    and "mirror_images m (landmark lms j) (landmark lms j')"
  shows "eye_width lms i j = eye_width lms i' j'"
proof -
  have sq: "(b' - a')\<^sup>2 = (b - a)\<^sup>2" if "a + a' = 2 * m" "b + b' = 2 * m" for a a' b b' :: real
  proof -
    from that have "b' - a' = - (b - a)" by simp
    then show ?thesis by (simp only: power2_minus)
  qed
  show ?thesis
    using assms
    by (cases "landmark lms i"; cases "landmark lms i'"; cases "landmark lms j"; cases "landmark lms j'")
       (simp_all add: eye_width_def sq)
qed

lemma bilateral_ratio_same: "bilateral_ratio a a = 1"
  by (simp add: bilateral_ratio_def)

lemma eye_width_code:
  "(case (landmark lms i, landmark lms j) of (Some p, Some q) \<Rightarrow> distance3D p q | _ \<Rightarrow> 0)
     = eye_width lms i j"
  by (cases "landmark lms i"; cases "landmark lms j") (simp_all add: eye_width_def distance3D_def)

lemma computeSymmetry_scores:
  "sym_eyes (computeSymmetry lms) = bilateral_ratio (eye_width lms 33 133) (eye_width lms 263 362)"
  "sym_eyebrows (computeSymmetry lms)
     = bilateral_ratio (getRegionHeight lms FACIAL_REGIONS_LEFT_EYEBROW)
         (getRegionHeight lms FACIAL_REGIONS_RIGHT_EYEBROW)"
  "sym_overall (computeSymmetry lms)
     = (sym_eyes (computeSymmetry lms) + sym_eyebrows (computeSymmetry lms)) / 2"
  "sym_score (computeSymmetry lms) = sym_overall (computeSymmetry lms) * 100"
  unfolding computeSymmetry_def Let_def eye_width_code bilateral_ratio_def
  by simp_all

lemma mirror_symmetric_scores:
  assumes "mirror_symmetric m lms"
  shows "sym_eyes (computeSymmetry lms) = 1" and "sym_eyebrows (computeSymmetry lms) = 1"
proof -
  from assms have corners: "mirror_images m (landmark lms 33) (landmark lms 263)"
      "mirror_images m (landmark lms 133) (landmark lms 362)"
    and brows: "\<forall>pr \<in> set (zip FACIAL_REGIONS_LEFT_EYEBROW FACIAL_REGIONS_RIGHT_EYEBROW).
                  mirror_images m (landmark lms (fst pr)) (landmark lms (snd pr))"
    by (simp_all add: mirror_symmetric_def mirror_pairs_def)
  from mirrored_width [OF corners] show "sym_eyes (computeSymmetry lms) = 1"
    by (simp add: computeSymmetry_scores(1) bilateral_ratio_same)
  have "length FACIAL_REGIONS_LEFT_EYEBROW = length FACIAL_REGIONS_RIGHT_EYEBROW"
    by (simp add: FACIAL_REGIONS_LEFT_EYEBROW_def FACIAL_REGIONS_RIGHT_EYEBROW_def)
  from mirrored_heights [OF this brows]
  have "getRegionHeight lms FACIAL_REGIONS_LEFT_EYEBROW = getRegionHeight lms FACIAL_REGIONS_RIGHT_EYEBROW"
    by (simp only: getRegionHeight_heights)
  then show "sym_eyebrows (computeSymmetry lms) = 1"
    by (simp add: computeSymmetry_scores(2) bilateral_ratio_same)
qed

text \<open>
  Claim C8, amended. For every frame that is mirror-symmetric about a vertical plane
  \<open>x = m\<close> (each left landmark that \<^verbatim>\<open>computeSymmetry\<close> reads is the mirror image of its
  right counterpart, or both are missing), the eye and eyebrow sub-scores are 1 and the
  score is 100. For every frame, each sub-score is \<open>1 - |L - R| / max L R\<close> when both sides
  are positive and 1 otherwise, that is when a side is zero, missing or negative; \<open>L\<close> and
  \<open>R\<close> are the eye widths, respectively the mean y coordinates of the eyebrow landmarks.
  The score is the unweighted mean of the two sub-scores times 100.
\<close>

theorem symmetry_scores:
  "(mirror_symmetric m lms \<longrightarrow>
      sym_eyes (computeSymmetry lms) = 1 \<and> sym_eyebrows (computeSymmetry lms) = 1
      \<and> sym_score (computeSymmetry lms) = 100)
   \<and> sym_eyes (computeSymmetry lms) = bilateral_ratio (eye_width lms 33 133) (eye_width lms 263 362)
   \<and> sym_eyebrows (computeSymmetry lms)
       = bilateral_ratio (getRegionHeight lms FACIAL_REGIONS_LEFT_EYEBROW)
           (getRegionHeight lms FACIAL_REGIONS_RIGHT_EYEBROW)
   \<and> sym_score (computeSymmetry lms)
       = (sym_eyes (computeSymmetry lms) + sym_eyebrows (computeSymmetry lms)) / 2 * 100"
proof -
  have sc: "sym_score (computeSymmetry lms)
              = (sym_eyes (computeSymmetry lms) + sym_eyebrows (computeSymmetry lms)) / 2 * 100"
    by (simp only: computeSymmetry_scores(3,4))
  have "sym_eyes (computeSymmetry lms) = 1 \<and> sym_eyebrows (computeSymmetry lms) = 1
          \<and> sym_score (computeSymmetry lms) = 100"
    if "mirror_symmetric m lms"
    using mirror_symmetric_scores [OF that] by (simp add: sc)
  with sc computeSymmetry_scores(1,2) [of lms] show ?thesis by blast
qed

lemma frame_mirrored_symmetric: "mirror_symmetric 0 frame_mirrored"
  by (simp add: mirror_symmetric_def mirror_pairs_def FACIAL_REGIONS_LEFT_EYEBROW_def
      FACIAL_REGIONS_RIGHT_EYEBROW_def frame_mirrored_def landmark_def c0_def c1_def c2_def)

theorem symmetry_scores_witness:
  "sym_eyes (computeSymmetry frame_mirrored) = 1 \<and> sym_eyebrows (computeSymmetry frame_mirrored) = 1
   \<and> sym_score (computeSymmetry frame_mirrored) = 100
   \<and> eye_width frame_mirrored 33 133 = 1 \<and> eye_width frame_mirrored 263 362 = 1"
proof -
  have "eye_width frame_mirrored 33 133 = 1" "eye_width frame_mirrored 263 362 = 1"
    by (simp_all add: eye_width_def frame_mirrored_def landmark_def c0_def c1_def c2_def)
  with symmetry_scores [of 0 frame_mirrored] frame_mirrored_symmetric show ?thesis by simp
qed

text \<open>
  The claim as stated gives the ratio whenever neither side is zero or missing. With mean
  eyebrow heights -1 and -2 that ratio is 2, and the eyebrow sub-score of the source is 1.
\<close>

theorem eyebrow_score_on_negative_heights:
  "getRegionHeight frame_low_brows FACIAL_REGIONS_LEFT_EYEBROW = - 1
   \<and> getRegionHeight frame_low_brows FACIAL_REGIONS_RIGHT_EYEBROW = - 2
   \<and> sym_eyebrows (computeSymmetry frame_low_brows) = 1
   \<and> claimed_ratio (- 1) (- 2) = 2"
proof -
  have l: "getRegionHeight frame_low_brows FACIAL_REGIONS_LEFT_EYEBROW = - 1"
    by (simp add: getRegionHeight_def FACIAL_REGIONS_LEFT_EYEBROW_def frame_low_brows_def
        landmark_def map_filter_simps c1_def)
  have r: "getRegionHeight frame_low_brows FACIAL_REGIONS_RIGHT_EYEBROW = - 2"
    by (simp add: getRegionHeight_def FACIAL_REGIONS_RIGHT_EYEBROW_def frame_low_brows_def
        landmark_def map_filter_simps c1_def)
  have "sym_eyebrows (computeSymmetry frame_low_brows) = 1"
    by (simp add: computeSymmetry_scores(2) l r bilateral_ratio_def)
  moreover have "claimed_ratio (- 1) (- 2) = 2" by (simp add: claimed_ratio_def)
  ultimately show ?thesis using l r by simp
qed

section \<open>Rotation matrix\<close>

lemma orthonormal_frame_entries:
  fixes a1 a2 a3 c1 c2 c3 :: real
  assumes a: "a1 * a1 + a2 * a2 + a3 * a3 = 1"
    and c: "c1 * c1 + c2 * c2 + c3 * c3 = 1"
    and ac: "a1 * c1 + a2 * c2 + a3 * c3 = 0"
  defines "b1 \<equiv> c2 * a3 - c3 * a2" and "b2 \<equiv> c3 * a1 - c1 * a3" and "b3 \<equiv> c1 * a2 - c2 * a1"
  shows "a1 * a1 + b1 * b1 + c1 * c1 = 1"
    and "a2 * a2 + b2 * b2 + c2 * c2 = 1"
    and "a3 * a3 + b3 * b3 + c3 * c3 = 1"
    and "a1 * a2 + b1 * b2 + c1 * c2 = 0"
    and "a1 * a3 + b1 * b3 + c1 * c3 = 0"
    and "a2 * a3 + b2 * b3 + c2 * c3 = 0"
    and "a1 * (b2 * c3 - c2 * b3) - b1 * (a2 * c3 - c2 * a3) + c1 * (a2 * b3 - b2 * a3) = 1"
  using a c ac unfolding b1_def b2_def b3_def by algebra+


lemma Vector3_length_zero_iff: "Vector3_length u = 0 \<longleftrightarrow> u = Vector3 0 0 0"
proof (cases u)
  case (Vector3 a b c)
  have "a * a + b * b + c * c = 0 \<longleftrightarrow> a = 0 \<and> b = 0 \<and> c = 0"
    using sum_power2_eq_zero_iff [of a b] sum_power2_eq_zero_iff [of "sqrt (a\<^sup>2 + b\<^sup>2)" c]
    by (auto simp: power2_eq_square [symmetric] add_nonneg_eq_0_iff)
  with Vector3 show ?thesis by (simp add: Vector3_length_def)
qed

lemma Vector3_length_squared:
  "Vector3_length u * Vector3_length u = Vector3_dot u u"
  by (simp add: Vector3_length_def Vector3_dot_def)

lemma Vector3_normalize_components:
  assumes "u \<noteq> Vector3 0 0 0"
  shows "Vector3_normalize u
           = Vector3 (vx u / Vector3_length u) (vy u / Vector3_length u) (vz u / Vector3_length u)"
  using assms by (simp add: Vector3_normalize_def Let_def Vector3_length_zero_iff)

lemma Vector3_normalize_unit:
  assumes "u \<noteq> Vector3 0 0 0"
  shows "Vector3_dot (Vector3_normalize u) (Vector3_normalize u) = 1"
proof -
  let ?l = "Vector3_length u"
  from assms have l: "?l \<noteq> 0" by (simp add: Vector3_length_zero_iff)
  have "Vector3_dot (Vector3_normalize u) (Vector3_normalize u) = Vector3_dot u u / (?l * ?l)"
    by (simp add: Vector3_normalize_components [OF assms] Vector3_dot_def add_divide_distrib)
  also have "\<dots> = 1" using l by (simp add: Vector3_length_squared [symmetric])
  finally show ?thesis .
qed

lemma Vector3_normalize_of_unit:
  assumes "Vector3_dot u u = 1"
  shows "Vector3_normalize u = u"
proof -
  have "Vector3_length u = 1"
    using assms by (simp add: Vector3_length_def Vector3_dot_def)
  then show ?thesis by (cases u) (simp add: Vector3_normalize_def Let_def)
qed

lemma Vector3_cross_orthogonal: "Vector3_dot (Vector3_cross u v) u = 0"
  by (simp add: Vector3_dot_def Vector3_cross_def algebra_simps)

lemma Vector3_normalize_orthogonal:
  assumes "Vector3_dot u v = 0"
  shows "Vector3_dot (Vector3_normalize u) v = 0"
proof (cases "u = Vector3 0 0 0")
  case True
  then show ?thesis by (simp add: Vector3_normalize_def Vector3_length_def Vector3_dot_def)
next
  case False
  have "Vector3_dot (Vector3_normalize u) v = Vector3_dot u v / Vector3_length u"
    by (simp add: Vector3_normalize_components [OF False] Vector3_dot_def add_divide_distrib)
  with assms show ?thesis by simp
qed

lemma Vector3_cross_normalized_nonzero:
  assumes "Vector3_cross u v \<noteq> Vector3 0 0 0"
  shows "Vector3_cross (Vector3_normalize u) (Vector3_normalize v) \<noteq> Vector3 0 0 0"
proof -
  from assms have u: "u \<noteq> Vector3 0 0 0" and v: "v \<noteq> Vector3 0 0 0"
    by (auto simp: Vector3_cross_def)
  let ?l = "Vector3_length u" and ?m = "Vector3_length v"
  from u v have l: "?l \<noteq> 0" and m: "?m \<noteq> 0" by (simp_all add: Vector3_length_zero_iff)
  have "Vector3_cross (Vector3_normalize u) (Vector3_normalize v)
          = Vector3 (vx (Vector3_cross u v) / (?l * ?m)) (vy (Vector3_cross u v) / (?l * ?m))
              (vz (Vector3_cross u v) / (?l * ?m))"
    using l m
    by (simp add: Vector3_normalize_components [OF u] Vector3_normalize_components [OF v]
        Vector3_cross_def diff_divide_distrib)
  moreover from assms have "vx (Vector3_cross u v) \<noteq> 0 \<or> vy (Vector3_cross u v) \<noteq> 0
      \<or> vz (Vector3_cross u v) \<noteq> 0"
    by (cases "Vector3_cross u v") auto
  ultimately show ?thesis using l m by auto
qed

lemma Vector3_cross_unit:
  assumes "Vector3_dot u u = 1" and "Vector3_dot v v = 1" and "Vector3_dot u v = 0"
  shows "Vector3_dot (Vector3_cross u v) (Vector3_cross u v) = 1"
proof -
  obtain a1 a2 a3 where u: "u = Vector3 a1 a2 a3" by (cases u)
  obtain b1 b2 b3 where v: "v = Vector3 b1 b2 b3" by (cases v)
  from assms have "a1 * a1 + a2 * a2 + a3 * a3 = 1" "b1 * b1 + b2 * b2 + b3 * b3 = 1"
      "a1 * b1 + a2 * b2 + a3 * b3 = 0"
    by (simp_all add: u v Vector3_dot_def)
  then have "(a2 * b3 - a3 * b2) * (a2 * b3 - a3 * b2) + (a3 * b1 - a1 * b3) * (a3 * b1 - a1 * b3)
               + (a1 * b2 - a2 * b1) * (a1 * b2 - a2 * b1) = 1"
    by algebra
  then show ?thesis by (simp add: u v Vector3_dot_def Vector3_cross_def)
qed


text \<open>The axes that \<^verbatim>\<open>computeFaceAxes\<close> returns on non-degenerate anchors.\<close>

lemma computeFaceAxes_orthonormal:
  assumes "Vector3_cross (Vector3_subtract rightEye leftEye) (Vector3_subtract chin noseTip)
             \<noteq> Vector3 0 0 0"
  defines "ax \<equiv> computeFaceAxes leftEye rightEye noseTip chin"
  shows "Vector3_dot (axes_right ax) (axes_right ax) = 1"
    and "Vector3_dot (axes_forward ax) (axes_forward ax) = 1"
    and "Vector3_dot (axes_right ax) (axes_forward ax) = 0"
    and "axes_up ax = Vector3_cross (axes_forward ax) (axes_right ax)"
proof -
  let ?e = "Vector3_subtract rightEye leftEye" and ?n = "Vector3_subtract chin noseTip"
  let ?h = "Vector3_normalize ?e" and ?v = "Vector3_normalize ?n"
  let ?f = "Vector3_normalize (Vector3_cross ?h ?v)"
  from assms(1) have e: "?e \<noteq> Vector3 0 0 0"
    by (auto simp: Vector3_cross_def)
  have r: "axes_right ax = ?h" and f: "axes_forward ax = ?f"
    and u: "axes_up ax = Vector3_normalize (Vector3_cross ?f ?h)"
    by (simp_all add: ax_def computeFaceAxes_def Let_def)
  show hh: "Vector3_dot (axes_right ax) (axes_right ax) = 1"
    unfolding r by (rule Vector3_normalize_unit [OF e])
  have "Vector3_cross ?h ?v \<noteq> Vector3 0 0 0"
    by (rule Vector3_cross_normalized_nonzero [OF assms(1)])
  then show ff: "Vector3_dot (axes_forward ax) (axes_forward ax) = 1"
    unfolding f by (rule Vector3_normalize_unit)
  have fh: "Vector3_dot ?f ?h = 0"
    by (rule Vector3_normalize_orthogonal [OF Vector3_cross_orthogonal])
  then show hf: "Vector3_dot (axes_right ax) (axes_forward ax) = 0"
    unfolding r f by (simp add: Vector3_dot_def mult.commute)
  from ff hh fh have "Vector3_dot (Vector3_cross ?f ?h) (Vector3_cross ?f ?h) = 1"
    unfolding r f by (rule Vector3_cross_unit)
  then show "axes_up ax = Vector3_cross (axes_forward ax) (axes_right ax)"
    unfolding u r f by (rule Vector3_normalize_of_unit)
qed

lemma buildRotationMatrix_orthogonal:
  assumes "Vector3_dot (axes_right ax) (axes_right ax) = 1"
    and "Vector3_dot (axes_forward ax) (axes_forward ax) = 1"
    and "Vector3_dot (axes_right ax) (axes_forward ax) = 0"
    and "axes_up ax = Vector3_cross (axes_forward ax) (axes_right ax)"
  shows "mat_mult (buildRotationMatrix ax) (getStabilizationMatrix (buildRotationMatrix ax)) = identity3"
    and "det3 (buildRotationMatrix ax) = 1"
proof -
  obtain a1 a2 a3 where a: "axes_right ax = Vector3 a1 a2 a3" by (cases "axes_right ax")
  obtain c1 c2 c3 where c: "axes_forward ax = Vector3 c1 c2 c3" by (cases "axes_forward ax")
  from assms(1-3) have n: "a1 * a1 + a2 * a2 + a3 * a3 = 1" "c1 * c1 + c2 * c2 + c3 * c3 = 1"
      "a1 * c1 + a2 * c2 + a3 * c3 = 0"
    by (simp_all add: a c Vector3_dot_def)
  have b: "axes_up ax = Vector3 (c2 * a3 - c3 * a2) (c3 * a1 - c1 * a3) (c1 * a2 - c2 * a1)"
    by (simp add: assms(4) a c Vector3_cross_def)
  note E = orthonormal_frame_entries [OF n]
  have M: "buildRotationMatrix ax =
             [[a1, c2 * a3 - c3 * a2, c1], [a2, c3 * a1 - c1 * a3, c2], [a3, c1 * a2 - c2 * a1, c3]]"
    by (simp add: buildRotationMatrix_def a b c)
  show "mat_mult (buildRotationMatrix ax) (getStabilizationMatrix (buildRotationMatrix ax)) = identity3"
    unfolding M using E(1-6)
    by (simp add: mat_mult_def mat_entry_def getStabilizationMatrix_def identity3_def mult.commute)
  show "det3 (buildRotationMatrix ax) = 1"
    unfolding M using E(7) by (simp add: det3_def)
qed


lemma estimatePose_anchored_matrix:
  "rotationMatrix (fst (estimatePose_anchored est a b c d e g))
     = buildRotationMatrix (computeFaceAxes a b c d)"
  by (simp add: estimatePose_anchored_def Let_def split_def)

lemma estimatePose_on_anchors:
  assumes "468 \<le> length lms" and "anchors_present lms"
  shows "estimatePose est (Some lms) =
           Inr (Some (fst (estimatePose_anchored est
                            (anchor_vector lms POSE_ANCHORS_LEFT_EYE)
                            (anchor_vector lms POSE_ANCHORS_RIGHT_EYE)
                            (anchor_vector lms POSE_ANCHORS_NOSE_TIP)
                            (anchor_vector lms POSE_ANCHORS_CHIN)
                            (anchor_vector lms POSE_ANCHORS_LEFT_EYE_INNER)
                            (anchor_vector lms POSE_ANCHORS_RIGHT_EYE_INNER))),
                snd (estimatePose_anchored est
                            (anchor_vector lms POSE_ANCHORS_LEFT_EYE)
                            (anchor_vector lms POSE_ANCHORS_RIGHT_EYE)
                            (anchor_vector lms POSE_ANCHORS_NOSE_TIP)
                            (anchor_vector lms POSE_ANCHORS_CHIN)
                            (anchor_vector lms POSE_ANCHORS_LEFT_EYE_INNER)
                            (anchor_vector lms POSE_ANCHORS_RIGHT_EYE_INNER)))"
proof -
  from assms(2) obtain p1 p2 p3 p4 p5 p6 where
    "landmark lms POSE_ANCHORS_LEFT_EYE = Some p1" "landmark lms POSE_ANCHORS_RIGHT_EYE = Some p2"
    "landmark lms POSE_ANCHORS_NOSE_TIP = Some p3" "landmark lms POSE_ANCHORS_CHIN = Some p4"
    "landmark lms POSE_ANCHORS_LEFT_EYE_INNER = Some p5" "landmark lms POSE_ANCHORS_RIGHT_EYE_INNER = Some p6"
    by (auto simp: anchors_present_def)
  with assms(1) show ?thesis
    by (simp add: estimatePose_def Vector3_fromArray_Some anchor_vector_def split_def)
qed

text \<open>
  Claim C1. For every frame of at least 468 entries whose six anchors are present and
  non-degenerate, \<^verbatim>\<open>estimatePose\<close> returns a pose whose rotation matrix times its transpose
  is the identity matrix, exactly, and whose determinant is 1. The transpose is taken by
  \<^verbatim>\<open>getStabilizationMatrix\<close>.
\<close>

theorem rotation_matrix_is_orthogonal:
  assumes "468 \<le> length lms" and "anchors_present lms" and "non_degenerate lms"
  shows "\<exists>pose est'. estimatePose est (Some lms) = Inr (Some pose, est')
           \<and> mat_mult (rotationMatrix pose) (getStabilizationMatrix (rotationMatrix pose)) = identity3
           \<and> det3 (rotationMatrix pose) = 1"
proof -
  let ?ax = "computeFaceAxes (anchor_vector lms POSE_ANCHORS_LEFT_EYE)
               (anchor_vector lms POSE_ANCHORS_RIGHT_EYE) (anchor_vector lms POSE_ANCHORS_NOSE_TIP)
               (anchor_vector lms POSE_ANCHORS_CHIN)"
  from assms(3) have "Vector3_cross
      (Vector3_subtract (anchor_vector lms POSE_ANCHORS_RIGHT_EYE) (anchor_vector lms POSE_ANCHORS_LEFT_EYE))
      (Vector3_subtract (anchor_vector lms POSE_ANCHORS_CHIN) (anchor_vector lms POSE_ANCHORS_NOSE_TIP))
        \<noteq> Vector3 0 0 0"
    by (simp add: non_degenerate_def eye_axis_def nose_chin_axis_def)
  note ortho = computeFaceAxes_orthonormal [OF this]
  note R = buildRotationMatrix_orthogonal [OF ortho]
  from estimatePose_on_anchors [OF assms(1,2), of est] R show ?thesis
    by (simp add: estimatePose_anchored_matrix)
qed

theorem rotation_matrix_is_orthogonal_witness:
  "468 \<le> length frame_front \<and> non_degenerate frame_front
   \<and> (\<exists>pose est'. estimatePose FacePoseEstimator_new (Some frame_front) = Inr (Some pose, est')
         \<and> rotationMatrix pose = [[1, 0, 0], [0, 1, 0], [0, 0, 1]]
         \<and> mat_mult (rotationMatrix pose) (getStabilizationMatrix (rotationMatrix pose)) = identity3
         \<and> det3 (rotationMatrix pose) = 1)"
proof -
  have len: "468 \<le> length frame_front" and pres: "anchors_present frame_front"
    using frame_front_valid by simp_all
  have nd: "non_degenerate frame_front"
    by (simp add: non_degenerate_def eye_axis_def nose_chin_axis_def anchor_vector_def
        frame_front_anchors Vector3_subtract_def Vector3_cross_def c0_def c1_def c2_def)
  from rotation_matrix_is_orthogonal [OF len pres nd, of FacePoseEstimator_new]
  obtain pose est' where
    run: "estimatePose FacePoseEstimator_new (Some frame_front) = Inr (Some pose, est')"
    and o: "mat_mult (rotationMatrix pose) (getStabilizationMatrix (rotationMatrix pose)) = identity3"
    and d: "det3 (rotationMatrix pose) = 1"
    by blast
  from first_front_frame run have "rotationMatrix pose = [[1, 0, 0], [0, 1, 0], [0, 0, 1]]"
    by (auto simp: identity3_def)
  with len nd run o d show ?thesis by blast
qed

section \<open>Euler angles\<close>

lemma atan2_right: "0 < x \<Longrightarrow> atan2 y x = arctan (y / x)"
  by (simp add: atan2_def)

lemma atan2_upper_left: "x < 0 \<Longrightarrow> 0 \<le> y \<Longrightarrow> atan2 y x = arctan (y / x) + pi"
  by (simp add: atan2_def)

lemma atan2_lower_left: "x < 0 \<Longrightarrow> y < 0 \<Longrightarrow> atan2 y x = arctan (y / x) - pi"
  by (simp add: atan2_def)

lemma atan2_polar:
  assumes c: "0 < c" and lo: "- pi < t" and hi: "t \<le> pi"
  shows "atan2 (c * sin t) (c * cos t) = t"
proof -
  have q: "c * sin t / (c * cos t) = tan t"
    using c by (simp add: tan_def)
  consider "- (pi / 2) < t \<and> t < pi / 2" | "pi / 2 < t" | "t < - (pi / 2)"
    | "t = pi / 2" | "t = - (pi / 2)"
    by linarith
  then show ?thesis
  proof cases
    case 1
    then have "0 < cos t" by (simp add: cos_gt_zero_pi)
    with c have "0 < c * cos t" by simp
    then have "atan2 (c * sin t) (c * cos t) = arctan (tan t)"
      by (simp only: atan2_right q)
    with 1 show ?thesis by (simp add: arctan_tan)
  next
    case 2
    with hi have "cos t < cos (pi / 2)"
      by (intro cos_monotone_0_pi) simp_all
    then have "cos t < 0" by simp
    with c have neg: "c * cos t < 0" by (simp add: mult_pos_neg)
    from 2 hi have "0 \<le> sin t" by (intro sin_ge_zero) simp_all
    with c have nn: "0 \<le> c * sin t" by simp
    have a: "atan2 (c * sin t) (c * cos t) = arctan (tan t) + pi"
      by (simp only: atan2_upper_left [OF neg nn] q)
    have "tan t = tan (t - pi)"
      using tan_periodic_pi [of "t - pi"] by simp
    moreover from 2 hi have "arctan (tan (t - pi)) = t - pi"
      by (intro arctan_tan) simp_all
    ultimately show ?thesis
      using a by simp
  next
    case 3
    with lo have "cos (- t) < cos (pi / 2)"
      by (intro cos_monotone_0_pi) simp_all
    then have "cos t < 0" by simp
    with c have neg: "c * cos t < 0" by (simp add: mult_pos_neg)
    from 3 lo have "0 < sin (- t)" by (intro sin_gt_zero) simp_all
    then have "sin t < 0" by simp
    with c have ng: "c * sin t < 0" by (simp add: mult_pos_neg)
    have a: "atan2 (c * sin t) (c * cos t) = arctan (tan t) - pi"
      by (simp only: atan2_lower_left [OF neg ng] q)
    have "tan t = tan (t + pi)" by simp
    moreover from 3 lo have "arctan (tan (t + pi)) = t + pi"
      by (intro arctan_tan) simp_all
    ultimately show ?thesis
      using a by simp
  next
    case 4
    show ?thesis unfolding 4 using c by (simp add: atan2_def)
  next
    case 5
    show ?thesis unfolding 5 using c by (simp add: atan2_def)
  qed
qed

lemma radians_range:
  "- 180 < d \<Longrightarrow> - pi < radians d"
  "d \<le> 180 \<Longrightarrow> radians d \<le> pi"
  "- 90 < d \<Longrightarrow> - (pi / 2) < radians d"
  "d < 90 \<Longrightarrow> radians d < pi / 2"
proof -
  show "- pi < radians d" if "- 180 < d"
    using mult_strict_right_mono [OF that pi_gt_zero] by (simp add: radians_def)
  show "radians d \<le> pi" if "d \<le> 180"
    using mult_right_mono [OF that pi_ge_zero] by (simp add: radians_def)
  show "- (pi / 2) < radians d" if "- 90 < d"
    using mult_strict_right_mono [OF that pi_gt_zero] by (simp add: radians_def)
  show "radians d < pi / 2" if "d < 90"
    using mult_strict_right_mono [OF that pi_gt_zero] by (simp add: radians_def)
qed

lemma degrees_radians: "radians d * 180 / pi = d"
  by (simp add: radians_def)

lemma euler_round_trip_nonsingular:
  assumes y: "- 180 < yw" "yw \<le> 180" and p: "- 90 < pt" "pt < 90" and r: "- 180 < rl" "rl \<le> 180"
    and ns: "1 / 10 ^ 6 \<le> cos (radians pt)"
  shows "extractEulerAngles (composeZYX yw pt rl) = \<lparr>yaw = yw, pitch = pt, roll = rl\<rparr>"
proof -
  define Y where "Y = radians yw"
  define P where "P = radians pt"
  define R where "R = radians rl"
  from ns have cp: "0 < cos P" by (simp add: P_def)
  have e: "cos Y * cos Y + sin Y * sin Y = 1"
    by (rule sin_cos_squared_add3)
  have "cos Y * cos P * (cos Y * cos P) + sin Y * cos P * (sin Y * cos P)
          = cos P * cos P * (cos Y * cos Y + sin Y * sin Y)"
    by algebra
  then have "cos Y * cos P * (cos Y * cos P) + sin Y * cos P * (sin Y * cos P) = cos P * cos P"
    by (simp only: e mult_1_right)
  then have "sqrt (cos Y * cos P * (cos Y * cos P) + sin Y * cos P * (sin Y * cos P))
               = sqrt (cos P * cos P)"
    by (simp only:)
  with cp have sy: "sqrt (cos Y * cos P * (cos Y * cos P) + sin Y * cos P * (sin Y * cos P)) = cos P"
    by simp
  have "atan2 (cos P * sin Y) (cos P * cos Y) = Y"
    unfolding Y_def
    by (rule atan2_polar [OF cp radians_range(1) [OF y(1)] radians_range(2) [OF y(2)]])
  then have yaw_eq: "atan2 (sin Y * cos P) (cos Y * cos P) = Y"
    by (simp only: mult.commute)
  have lo: "- pi < P" and hi: "P \<le> pi"
    using radians_range(3) [OF p(1)] radians_range(4) [OF p(2)] pi_gt_zero
    unfolding P_def by linarith+
  have "atan2 (1 * sin P) (1 * cos P) = P"
    by (rule atan2_polar [OF zero_less_one lo hi])
  then have pitch_eq: "atan2 (sin P) (cos P) = P" by simp
  have roll_eq: "atan2 (cos P * sin R) (cos P * cos R) = R"
    unfolding R_def
    by (rule atan2_polar [OF cp radians_range(1) [OF r(1)] radians_range(2) [OF r(2)]])
  from ns have nonsing: "\<not> cos P < 1 / 10 ^ 6" by (simp add: P_def)
  have "extractEulerAngles (composeZYX yw pt rl)
          = \<lparr>yaw = Y * 180 / pi, pitch = P * 180 / pi, roll = R * 180 / pi\<rparr>"
    unfolding extractEulerAngles_def composeZYX_def Let_def
      Y_def [symmetric] P_def [symmetric] R_def [symmetric]
    using nonsing
    by (simp add: sy yaw_eq pitch_eq roll_eq)
  then show ?thesis
    by (simp only: Y_def P_def R_def degrees_radians)
qed


lemma sin_double_le:
  assumes "0 \<le> x" and "x \<le> pi"
  shows "sin (2 * x) \<le> 2 * sin x"
proof -
  from assms have "0 \<le> sin x" by (rule sin_ge_zero)
  then have "sin x * cos x \<le> sin x"
    by (intro mult_left_le) simp_all
  then show ?thesis by (simp add: sin_double)
qed

lemma sin_pow2_le:
  "0 \<le> x \<Longrightarrow> 2 ^ n * x \<le> pi \<Longrightarrow> sin (2 ^ n * x) \<le> 2 ^ n * sin x"
proof (induction n)
  case 0
  then show ?case by simp
next
  case (Suc n)
  from Suc.prems(1) have nn: "0 \<le> 2 ^ n * x" by simp
  from Suc.prems(2) have "2 * (2 ^ n * x) \<le> pi" by (simp add: mult.assoc)
  with nn have small: "2 ^ n * x \<le> pi" by linarith
  have "sin (2 ^ Suc n * x) = sin (2 * (2 ^ n * x))" by (simp add: mult.assoc)
  also have "\<dots> \<le> 2 * sin (2 ^ n * x)" by (rule sin_double_le [OF nn small])
  also have "\<dots> \<le> 2 * (2 ^ n * sin x)" using Suc.IH [OF Suc.prems(1) small] by simp
  finally show ?case by simp
qed

lemma sin_tenth_degree: "1 / 1024 \<le> sin (pi / 1800)"
proof -
  have a: "- (pi / 2) \<le> pi / 6" "pi / 6 \<le> 512 * (pi / 1800)" "512 * (pi / 1800) \<le> pi / 2"
    using pi_gt_zero by linarith+
  have b: "(0::real) \<le> pi / 1800" "2 ^ 9 * (pi / 1800) \<le> pi"
    using pi_gt_zero by simp_all
  have "sin (pi / 6) \<le> sin (512 * (pi / 1800))"
    by (rule sin_monotone_2pi_le [OF a])
  also have "512 * (pi / 1800) = 2 ^ 9 * (pi / 1800)" by simp
  also have "sin (2 ^ 9 * (pi / 1800)) \<le> 2 ^ 9 * sin (pi / 1800)"
    by (rule sin_pow2_le [OF b])
  finally have "1 / 2 \<le> 512 * sin (pi / 1800)" by (simp add: sin_30)
  then show ?thesis by simp
qed

lemma cos_away_from_singular:
  assumes "\<bar>pt\<bar> \<le> 899 / 10"
  shows "1 / 10 ^ 6 \<le> cos (radians pt)"
proof -
  have "\<bar>radians pt\<bar> = \<bar>pt\<bar> * pi / 180"
    by (simp add: radians_def abs_mult)
  also have "\<dots> \<le> (899 / 10) * pi / 180"
    using mult_right_mono [OF assms pi_ge_zero] by simp
  finally have le: "\<bar>radians pt\<bar> \<le> pi / 2 - pi / 1800" by simp
  moreover have "pi / 2 - pi / 1800 \<le> pi" by simp
  ultimately have "cos (pi / 2 - pi / 1800) \<le> cos \<bar>radians pt\<bar>"
    by (intro cos_monotone_0_pi_le) simp_all
  moreover have "cos (pi / 2 - pi / 1800) = sin (pi / 1800)"
    using sin_cos_eq [of "pi / 1800 :: real"] by simp
  moreover have "cos \<bar>radians pt\<bar> = cos (radians pt)" by simp
  ultimately show ?thesis using sin_tenth_degree by simp
qed

text \<open>
  Claim C2, amended. For every triple of angles in degrees with yaw and roll in
  \<open>(-180, 180]\<close> and pitch in \<open>[-89.9, 89.9]\<close>, that is outside the 0.1 degree
  neighbourhood of the singular configuration, decomposing the ZYX rotation matrix of the
  triple with \<^verbatim>\<open>extractEulerAngles\<close> gives back the triple, exactly. On any matrix \<open>M\<close> that
  takes the singular branch (\<open>sy < 1e-6\<close>) the roll is 0 and the yaw is
  \<open>atan2 (- M01) M11\<close> in degrees.
\<close>

theorem euler_round_trip:
  assumes "- 180 < yw" and "yw \<le> 180" and "\<bar>pt\<bar> \<le> 899 / 10" and "- 180 < rl" and "rl \<le> 180"
  shows "extractEulerAngles (composeZYX yw pt rl) = \<lparr>yaw = yw, pitch = pt, roll = rl\<rparr>
       \<and> (sqrt (M ! 0 ! 0 * M ! 0 ! 0 + M ! 1 ! 0 * M ! 1 ! 0) < 1 / 10 ^ 6 \<longrightarrow>
            roll (extractEulerAngles M) = 0
            \<and> yaw (extractEulerAngles M) = atan2 (- (M ! 0 ! 1)) (M ! 1 ! 1) * 180 / pi)"
proof -
  from assms(3) have p: "- 90 < pt" "pt < 90" by simp_all
  have "extractEulerAngles (composeZYX yw pt rl) = \<lparr>yaw = yw, pitch = pt, roll = rl\<rparr>"
    by (rule euler_round_trip_nonsingular
          [OF assms(1,2) p assms(4,5) cos_away_from_singular [OF assms(3)]])
  moreover have "roll (extractEulerAngles M) = 0
            \<and> yaw (extractEulerAngles M) = atan2 (- (M ! 0 ! 1)) (M ! 1 ! 1) * 180 / pi"
    if "sqrt (M ! 0 ! 0 * M ! 0 ! 0 + M ! 1 ! 0 * M ! 1 ! 0) < 1 / 10 ^ 6"
    using that by (simp add: extractEulerAngles_def Let_def)
  ultimately show ?thesis by blast
qed

theorem euler_round_trip_witness:
  "extractEulerAngles (composeZYX 120 (- 45) 30) = \<lparr>yaw = 120, pitch = - 45, roll = 30\<rparr>
   \<and> sqrt (0 * 0 + 0 * 0) < (1::real) / 10 ^ 6
   \<and> roll (extractEulerAngles [[0, 0, 1], [0, 1, 0], [- 1, 0, 0]]) = 0
   \<and> yaw (extractEulerAngles [[0, 0, 1], [0, 1, 0], [- 1, 0, 0]]) = 0"
proof -
  have "- 180 < (120::real)" "(120::real) \<le> 180" "\<bar>- 45 :: real\<bar> \<le> 899 / 10"
    "- 180 < (30::real)" "(30::real) \<le> 180"
    by simp_all
  note T = euler_round_trip [OF this, of "[[0, 0, 1], [0, 1, 0], [- 1, 0, 0]]"]
  have s: "sqrt (0 * 0 + 0 * 0) < (1::real) / 10 ^ 6" by simp
  have a: "atan2 (- 0) 1 * 180 / pi = 0" by (simp add: atan2_def)
  from T s a show ?thesis by simp
qed

text \<open>
  The claim as stated, for every triple, fails outside those ranges: a pitch of 180 degrees
  comes back as 0, and a yaw of 360 degrees comes back as 0. Neither input is near the
  singular configuration.
\<close>

theorem euler_round_trip_fails_beyond_principal_range:
  "pitch (extractEulerAngles (composeZYX 0 180 0)) = 0
   \<and> \<not> \<bar>pitch (extractEulerAngles (composeZYX 0 180 0)) - 180\<bar> \<le> 1 / 1000
   \<and> yaw (extractEulerAngles (composeZYX 360 0 0)) = 0
   \<and> \<not> \<bar>yaw (extractEulerAngles (composeZYX 360 0 0)) - 360\<bar> \<le> 1 / 1000"
proof -
  have m: "composeZYX 0 180 0 = [[- 1, 0, 0], [0, 1, 0], [0, 0, - 1]]"
    by (simp add: composeZYX_def radians_def)
  have n: "composeZYX 360 0 0 = [[1, 0, 0], [0, 1, 0], [0, 0, 1]]"
    by (simp add: composeZYX_def radians_def)
  have "atan2 0 1 = 0"
    by (simp add: atan2_def)
  then have "pitch (extractEulerAngles (composeZYX 0 180 0)) = 0"
    unfolding m by (simp add: extractEulerAngles_def Let_def)
  moreover have "yaw (extractEulerAngles (composeZYX 360 0 0)) = 0"
    unfolding n by (simp add: extractEulerAngles_identity)
  ultimately show ?thesis by simp
qed

end
